theory Spec2Isabelle
  imports Complex_Main "HOL-Library.Multiset"
begin

section \<open>Chessboard pattern search (detect\_corners.cpp, wasm\_interface.cpp)\<close>

text \<open>
  \<^verbatim>\<open>cv::Size\<close> is a pair of C++ \<^verbatim>\<open>int\<close>s, built as \<^verbatim>\<open>Size(width, height)\<close>. The
  reported pattern has \<^verbatim>\<open>rows = height\<close> and \<^verbatim>\<open>cols = width\<close>. The integers that occur
  are products of numbers up to 20, a hint less one, and the number of detected
  features plus 20; the number of features of an image is taken to stay below the limit
  of \<^verbatim>\<open>int\<close>, so that none of them wraps, and they are modelled as \<open>int\<close>.
\<close>

datatype Size = Size (width: int) (height: int)

subsection \<open>Candidate sizes\<close>

text \<open>
  The hinted branch, \<^verbatim>\<open>if (rows > 0 && cols > 0)\<close>: the hint as given, the hint with
  the axes swapped and, when both are above 1, both again with one less on each axis.
\<close>

definition hinted_sizes :: "int \<Rightarrow> int \<Rightarrow> Size list" where
  "hinted_sizes rows cols =
     [Size cols rows, Size rows cols] @
     (if cols > 1 \<and> rows > 1
      then [Size (cols - 1) (rows - 1), Size (rows - 1) (cols - 1)]
      else [])"

text \<open>
  The auto-detect branch pushes, for \<^verbatim>\<open>r\<close> from 3 to 20 and inside that for \<^verbatim>\<open>c\<close> from
  3 to 20, the size \<^verbatim>\<open>Size(c, r)\<close> whenever \<^verbatim>\<open>r * c <= detectedCount + 20\<close>.
\<close>

definition generated_sizes :: "int \<Rightarrow> Size list" where
  "generated_sizes detectedCount =
     concat (map (\<lambda>r. concat (map (\<lambda>c.
       if r * c \<le> detectedCount + 20 then [Size c r] else []) [3..20])) [3..20])"

text \<open>The comparison handed to \<^verbatim>\<open>std::sort\<close>: larger area first.\<close>

definition area_greater :: "Size \<Rightarrow> Size \<Rightarrow> bool" where
  "area_greater a b \<longleftrightarrow> width a * height a > width b * height b"

text \<open>
  \<^verbatim>\<open>std::sort\<close> belongs to the C++ standard library, which differs between the two
  front ends' toolchains. It is a parameter \<open>srt\<close> of the model. What the standard
  promises of it is that the result is a rearrangement of the input in which no element
  is followed by one that the comparison puts before it; the order of elements that the
  comparison does not separate is left open.
\<close>

definition std_sort_contract :: "((Size \<Rightarrow> Size \<Rightarrow> bool) \<Rightarrow> Size list \<Rightarrow> Size list) \<Rightarrow> bool" where
  "std_sort_contract srt \<longleftrightarrow>
     (\<forall>xs. mset (srt area_greater xs) = mset xs \<and>
           sorted_wrt (\<lambda>a b. \<not> area_greater b a) (srt area_greater xs))"

text \<open>
  \<^verbatim>\<open>sizesToTry\<close> as it stands before the search loop. \<open>features\<close> is what
  \<^verbatim>\<open>goodFeaturesToTrack\<close> wrote for the image; only its length is used.
\<close>

definition sizesToTry ::
  "((Size \<Rightarrow> Size \<Rightarrow> bool) \<Rightarrow> Size list \<Rightarrow> Size list) \<Rightarrow> 'p list \<Rightarrow> int \<Rightarrow> int \<Rightarrow> Size list" where
  "sizesToTry srt features rows cols =
     (if rows > 0 \<and> cols > 0 then hinted_sizes rows cols
      else (let detectedCount = int (length features)
            in srt area_greater (generated_sizes detectedCount)))"

text \<open>
  A sorting procedure that keeps the contract, used to run the model where any such
  procedure will do: insertion, from the right, into a sorted list just before the first
  element that does not precede the new one.
\<close>

fun insert_by :: "('a \<Rightarrow> 'a \<Rightarrow> bool) \<Rightarrow> 'a \<Rightarrow> 'a list \<Rightarrow> 'a list" where
  "insert_by cmp x [] = [x]"
| "insert_by cmp x (y # ys) = (if cmp y x then y # insert_by cmp x ys else x # y # ys)"

definition insertion_sort :: "('a \<Rightarrow> 'a \<Rightarrow> bool) \<Rightarrow> 'a list \<Rightarrow> 'a list" where
  "insertion_sort cmp xs = foldr (insert_by cmp) xs []"

subsection \<open>\<^verbatim>\<open>std::sort\<close> as GNU libstdc++ has it\<close>

text \<open>
  The command-line front end built with g++ sorts with the \<^verbatim>\<open>std::sort\<close> of libstdc++
  (\<^verbatim>\<open>bits/stl_algo.h\<close>, \<^verbatim>\<open>bits/stl_heap.h\<close>): quicksort on ranges of more than 16
  elements, with the median of three as pivot and heap sort once the depth limit is
  used up, then one pass of insertion sort. The vector is a list, iterators are
  indices into it, and every function returns the vector it leaves. \<^verbatim>\<open>last\<close> is
  written \<open>lst\<close>, as \<open>last\<close> is taken in HOL.
\<close>

definition iter_swap :: "'a list \<Rightarrow> nat \<Rightarrow> nat \<Rightarrow> 'a list" where
  "iter_swap xs i j = xs[i := xs ! j, j := xs ! i]"

definition move_median_to_first ::
  "('a \<Rightarrow> 'a \<Rightarrow> bool) \<Rightarrow> 'a list \<Rightarrow> nat \<Rightarrow> nat \<Rightarrow> nat \<Rightarrow> nat \<Rightarrow> 'a list" where
  "move_median_to_first cmp xs result a b c =
     (if cmp (xs ! a) (xs ! b)
      then (if cmp (xs ! b) (xs ! c) then iter_swap xs result b
            else if cmp (xs ! a) (xs ! c) then iter_swap xs result c
            else iter_swap xs result a)
      else if cmp (xs ! a) (xs ! c) then iter_swap xs result a
      else if cmp (xs ! b) (xs ! c) then iter_swap xs result c
      else iter_swap xs result b)"

text \<open>
  The two inner loops of \<^verbatim>\<open>__unguarded_partition\<close>, \<^verbatim>\<open>while (comp(first, pivot)) ++first\<close>
  and \<^verbatim>\<open>while (comp(pivot, last)) --last\<close>. The library leaves out the test for the
  end of the range, which the pivot's choice makes needless; here the loops also stop
  at the ends of the vector.
\<close>

function skip_preceding :: "('a \<Rightarrow> 'a \<Rightarrow> bool) \<Rightarrow> 'a list \<Rightarrow> nat \<Rightarrow> nat \<Rightarrow> nat" where
  "skip_preceding cmp xs pivot first =
     (if first < length xs \<and> cmp (xs ! first) (xs ! pivot)
      then skip_preceding cmp xs pivot (Suc first) else first)"
  by pat_completeness auto
termination
  by (relation "measure (\<lambda>(cmp, xs, pivot, first). length xs - first)") auto

declare skip_preceding.simps [simp del]

fun skip_following :: "('a \<Rightarrow> 'a \<Rightarrow> bool) \<Rightarrow> 'a list \<Rightarrow> nat \<Rightarrow> nat \<Rightarrow> nat" where
  "skip_following cmp xs pivot 0 = 0"
| "skip_following cmp xs pivot (Suc n) =
     (if cmp (xs ! pivot) (xs ! Suc n) then skip_following cmp xs pivot n else Suc n)"

function unguarded_partition ::
  "('a \<Rightarrow> 'a \<Rightarrow> bool) \<Rightarrow> 'a list \<Rightarrow> nat \<Rightarrow> nat \<Rightarrow> nat \<Rightarrow> 'a list \<times> nat" where
  "unguarded_partition cmp xs first lst pivot =
     (let first' = skip_preceding cmp xs pivot first;
          lst' = skip_following cmp xs pivot (lst - 1)
      in if \<not> first' < lst' then (xs, first')
         else unguarded_partition cmp (iter_swap xs first' lst') (Suc first') lst' pivot)"
  by pat_completeness auto
termination
proof (relation "measure (\<lambda>(cmp, xs, first, lst, pivot). lst - first)", goal_cases)
  case 1
  show ?case by simp
next
  case (2 cmp xs first lst pivot first' lst')
  have up: "i \<le> skip_preceding c ys p i" for c :: "'a \<Rightarrow> 'a \<Rightarrow> bool" and ys p i
  proof (induction c ys p i rule: skip_preceding.induct)
    case (1 c ys p i)
    show ?case
    proof (cases "i < length ys \<and> c (ys ! i) (ys ! p)")
      case True
      then have "skip_preceding c ys p i = skip_preceding c ys p (Suc i)"
        by (subst skip_preceding.simps) simp
      with 1 True show ?thesis by simp
    next
      case False
      then have "skip_preceding c ys p i = i"
        by (subst skip_preceding.simps) auto
      then show ?thesis by simp
    qed
  qed
  have down: "skip_following c ys p n \<le> n" for c :: "'a \<Rightarrow> 'a \<Rightarrow> bool" and ys p n
    by (induction n) auto
  have "first \<le> first'" using 2 up by simp
  moreover have "lst' \<le> lst - 1" using 2 down by simp
  moreover have "first' < lst'" using 2 by simp
  ultimately show ?case by simp
qed

declare unguarded_partition.simps [simp del]

definition unguarded_partition_pivot ::
  "('a \<Rightarrow> 'a \<Rightarrow> bool) \<Rightarrow> 'a list \<Rightarrow> nat \<Rightarrow> nat \<Rightarrow> 'a list \<times> nat" where
  "unguarded_partition_pivot cmp xs first lst =
     (let mid = first + (lst - first) div 2
      in unguarded_partition cmp (move_median_to_first cmp xs first (first + 1) mid (lst - 1))
           (first + 1) lst first)"

text \<open>The heap sort, \<^verbatim>\<open>__partial_sort(first, last, last)\<close>, with what it calls.\<close>

function push_heap ::
  "('a \<Rightarrow> 'a \<Rightarrow> bool) \<Rightarrow> 'a list \<Rightarrow> nat \<Rightarrow> nat \<Rightarrow> nat \<Rightarrow> 'a \<Rightarrow> 'a list" where
  "push_heap cmp xs first holeIndex topIndex val =
     (let parent = (holeIndex - 1) div 2
      in if holeIndex > topIndex \<and> cmp (xs ! (first + parent)) val
         then push_heap cmp (xs[first + holeIndex := xs ! (first + parent)]) first parent topIndex val
         else xs[first + holeIndex := val])"
  by pat_completeness auto
termination
  by (relation "measure (\<lambda>(cmp, xs, first, holeIndex, topIndex, val). holeIndex)") auto

declare push_heap.simps [simp del]

function adjust_heap_loop ::
  "('a \<Rightarrow> 'a \<Rightarrow> bool) \<Rightarrow> 'a list \<Rightarrow> nat \<Rightarrow> nat \<Rightarrow> nat \<Rightarrow> nat \<Rightarrow> 'a list \<times> nat \<times> nat" where
  "adjust_heap_loop cmp xs first len holeIndex secondChild =
     (if secondChild < (len - 1) div 2
      then (let right = 2 * (secondChild + 1);
                child = (if cmp (xs ! (first + right)) (xs ! (first + (right - 1)))
                         then right - 1 else right)
            in adjust_heap_loop cmp (xs[first + holeIndex := xs ! (first + child)]) first len child child)
      else (xs, holeIndex, secondChild))"
  by pat_completeness auto
termination
  by (relation "measure (\<lambda>(cmp, xs, first, len, holeIndex, secondChild). len - secondChild)") auto

declare adjust_heap_loop.simps [simp del]

definition adjust_heap ::
  "('a \<Rightarrow> 'a \<Rightarrow> bool) \<Rightarrow> 'a list \<Rightarrow> nat \<Rightarrow> nat \<Rightarrow> nat \<Rightarrow> 'a \<Rightarrow> 'a list" where
  "adjust_heap cmp xs first holeIndex len val =
     (let (xs1, hole1, secondChild) = adjust_heap_loop cmp xs first len holeIndex holeIndex;
          (xs2, hole2) =
            (if len mod 2 = 0 \<and> secondChild = (len - 2) div 2
             then (let right = 2 * (secondChild + 1)
                   in (xs1[first + hole1 := xs1 ! (first + (right - 1))], right - 1))
             else (xs1, hole1))
      in push_heap cmp xs2 first hole2 holeIndex val)"

fun make_heap_loop :: "('a \<Rightarrow> 'a \<Rightarrow> bool) \<Rightarrow> 'a list \<Rightarrow> nat \<Rightarrow> nat \<Rightarrow> nat \<Rightarrow> 'a list" where
  "make_heap_loop cmp xs first len 0 = adjust_heap cmp xs first 0 len (xs ! first)"
| "make_heap_loop cmp xs first len (Suc parent) =
     make_heap_loop cmp (adjust_heap cmp xs first (Suc parent) len (xs ! (first + Suc parent)))
       first len parent"

definition make_heap :: "('a \<Rightarrow> 'a \<Rightarrow> bool) \<Rightarrow> 'a list \<Rightarrow> nat \<Rightarrow> nat \<Rightarrow> 'a list" where
  "make_heap cmp xs first lst =
     (if lst - first < 2 then xs
      else make_heap_loop cmp xs first (lst - first) ((lst - first - 2) div 2))"

definition pop_heap :: "('a \<Rightarrow> 'a \<Rightarrow> bool) \<Rightarrow> 'a list \<Rightarrow> nat \<Rightarrow> nat \<Rightarrow> nat \<Rightarrow> 'a list" where
  "pop_heap cmp xs first lst result =
     adjust_heap cmp (xs[result := xs ! first]) first 0 (lst - first) (xs ! result)"

function sort_heap :: "('a \<Rightarrow> 'a \<Rightarrow> bool) \<Rightarrow> 'a list \<Rightarrow> nat \<Rightarrow> nat \<Rightarrow> 'a list" where
  "sort_heap cmp xs first lst =
     (if lst - first > 1
      then sort_heap cmp (pop_heap cmp xs first (lst - 1) (lst - 1)) first (lst - 1)
      else xs)"
  by pat_completeness auto
termination
  by (relation "measure (\<lambda>(cmp, xs, first, lst). lst)") auto

declare sort_heap.simps [simp del]

definition heap_select :: "('a \<Rightarrow> 'a \<Rightarrow> bool) \<Rightarrow> 'a list \<Rightarrow> nat \<Rightarrow> nat \<Rightarrow> nat \<Rightarrow> 'a list" where
  "heap_select cmp xs first middle lst =
     fold (\<lambda>i ys. if cmp (ys ! i) (ys ! first) then pop_heap cmp ys first middle i else ys)
       [middle..<lst] (make_heap cmp xs first middle)"

definition partial_sort :: "('a \<Rightarrow> 'a \<Rightarrow> bool) \<Rightarrow> 'a list \<Rightarrow> nat \<Rightarrow> nat \<Rightarrow> nat \<Rightarrow> 'a list" where
  "partial_sort cmp xs first middle lst =
     sort_heap cmp (heap_select cmp xs first middle lst) first middle"

text \<open>
  \<^verbatim>\<open>__introsort_loop\<close>: each round of its \<^verbatim>\<open>while\<close> takes one from the depth limit,
  sorts the part from the cut on by a call of its own and goes on with the part before
  the cut.
\<close>

fun introsort_loop :: "('a \<Rightarrow> 'a \<Rightarrow> bool) \<Rightarrow> 'a list \<Rightarrow> nat \<Rightarrow> nat \<Rightarrow> nat \<Rightarrow> 'a list" where
  "introsort_loop cmp xs first lst 0 =
     (if lst - first > 16 then partial_sort cmp xs first lst lst else xs)"
| "introsort_loop cmp xs first lst (Suc depth_limit) =
     (if lst - first > 16
      then (let (xs1, cut) = unguarded_partition_pivot cmp xs first lst
            in introsort_loop cmp (introsort_loop cmp xs1 cut lst depth_limit) first cut depth_limit)
      else xs)"

text \<open>
  The insertion sorts. \<^verbatim>\<open>__unguarded_linear_insert\<close> moves the element at \<^verbatim>\<open>last\<close>
  down past every element it precedes.
\<close>

fun linear_insert_loop :: "('a \<Rightarrow> 'a \<Rightarrow> bool) \<Rightarrow> 'a \<Rightarrow> 'a list \<Rightarrow> nat \<Rightarrow> 'a list" where
  "linear_insert_loop cmp val xs 0 = xs[0 := val]"
| "linear_insert_loop cmp val xs (Suc next) =
     (if cmp val (xs ! next) then linear_insert_loop cmp val (xs[Suc next := xs ! next]) next
      else xs[Suc next := val])"

definition unguarded_linear_insert :: "('a \<Rightarrow> 'a \<Rightarrow> bool) \<Rightarrow> 'a list \<Rightarrow> nat \<Rightarrow> 'a list" where
  "unguarded_linear_insert cmp xs lst = linear_insert_loop cmp (xs ! lst) xs lst"

text \<open>
  \<^verbatim>\<open>__insertion_sort\<close>: an element that precedes the first one is put in front by
  \<^verbatim>\<open>move_backward\<close>, any other is inserted from its place down.
\<close>

definition range_insertion_sort :: "('a \<Rightarrow> 'a \<Rightarrow> bool) \<Rightarrow> 'a list \<Rightarrow> nat \<Rightarrow> nat \<Rightarrow> 'a list" where
  "range_insertion_sort cmp xs first lst =
     (if first = lst then xs
      else fold (\<lambda>i ys.
             if cmp (ys ! i) (ys ! first)
             then take first ys @ ys ! i # take (i - first) (drop first ys) @ drop (Suc i) ys
             else unguarded_linear_insert cmp ys i)
           [Suc first..<lst] xs)"

definition unguarded_insertion_sort :: "('a \<Rightarrow> 'a \<Rightarrow> bool) \<Rightarrow> 'a list \<Rightarrow> nat \<Rightarrow> nat \<Rightarrow> 'a list" where
  "unguarded_insertion_sort cmp xs first lst =
     fold (\<lambda>i ys. unguarded_linear_insert cmp ys i) [first..<lst] xs"

definition final_insertion_sort :: "('a \<Rightarrow> 'a \<Rightarrow> bool) \<Rightarrow> 'a list \<Rightarrow> nat \<Rightarrow> nat \<Rightarrow> 'a list" where
  "final_insertion_sort cmp xs first lst =
     (if lst - first > 16
      then unguarded_insertion_sort cmp (range_insertion_sort cmp xs first (first + 16)) (first + 16) lst
      else range_insertion_sort cmp xs first lst)"

text \<open>\<^verbatim>\<open>std::__lg\<close>, the binary logarithm rounded down, and \<^verbatim>\<open>std::sort\<close> itself.\<close>

fun lg :: "nat \<Rightarrow> nat" where
  "lg n = (if n < 2 then 0 else Suc (lg (n div 2)))"

declare lg.simps [simp del]

definition gnu_std_sort :: "('a \<Rightarrow> 'a \<Rightarrow> bool) \<Rightarrow> 'a list \<Rightarrow> 'a list" where
  "gnu_std_sort cmp xs =
     (if xs = [] then xs
      else final_insertion_sort cmp
             (introsort_loop cmp xs 0 (length xs) (lg (length xs) * 2)) 0 (length xs))"

subsection \<open>The search loop\<close>

text \<open>
  The variables of the loop \<^verbatim>\<open>for (const auto& size : sizesToTry)\<close>. \<open>attempts\<close> is
  not a variable of the program: it records the sizes handed to
  \<^verbatim>\<open>findChessboardCorners\<close>, in order, so that what was tried can be stated.
\<close>

record 'p search_state =
  found :: bool
  foundSize :: Size
  corners :: "'p list"
  attempts :: "Size list"

definition initial_search :: "'p search_state" where
  "initial_search = \<lparr> found = False, foundSize = Size 0 0, corners = [], attempts = [] \<rparr>"

text \<open>
  \<open>finder sz\<close> is the call \<^verbatim>\<open>findChessboardCorners(gray, size, corners, flags)\<close> on
  the cleared \<^verbatim>\<open>corners\<close> for the loop variable \<^verbatim>\<open>size\<close> (written \<open>sz\<close>, as
  \<open>size\<close> is taken in HOL): the flag it returns and the corners it wrote. The image
  and the flags are the same in every call, so the call is a function of the size.
\<close>

fun search_loop :: "(Size \<Rightarrow> bool \<times> 'p list) \<Rightarrow> Size list \<Rightarrow> 'p search_state \<Rightarrow> 'p search_state" where
  "search_loop finder [] st = st"
| "search_loop finder (sz # rest) st =
     (let (fnd, cs) = finder sz;
          st' = st\<lparr> found := fnd, corners := cs, attempts := attempts st @ [sz] \<rparr>
      in if fnd then st'\<lparr> foundSize := sz \<rparr>
         else search_loop finder rest st')"

text \<open>
  What either front end reports after the loop: on success the size and the corners
  after \<^verbatim>\<open>cornerSubPix\<close> (the parameter \<open>refine\<close>), otherwise that nothing was found.
  The command-line front end first checks its arguments and reads the image; the model
  starts where it has \<^verbatim>\<open>rows\<close>, \<^verbatim>\<open>cols\<close> and the grey image, as the embedded one does.
\<close>

datatype 'p detection = Detected (det_rows: int) (det_cols: int) (det_corners: "'p list") | NotFound

definition report_detection :: "('p list \<Rightarrow> 'p list) \<Rightarrow> 'p search_state \<Rightarrow> 'p detection" where
  "report_detection refine st =
     (if found st
      then Detected (height (foundSize st)) (width (foundSize st)) (refine (corners st))
      else NotFound)"

definition detectCorners ::
  "((Size \<Rightarrow> Size \<Rightarrow> bool) \<Rightarrow> Size list \<Rightarrow> Size list) \<Rightarrow> 'p list \<Rightarrow> (Size \<Rightarrow> bool \<times> 'p list) \<Rightarrow>
   ('p list \<Rightarrow> 'p list) \<Rightarrow> int \<Rightarrow> int \<Rightarrow> 'p detection" where
  "detectCorners srt features finder refine rows cols =
     report_detection refine
       (search_loop finder (sizesToTry srt features rows cols) initial_search)"

text \<open>
  A corner-finder to run the loop with: it sees a board 5 wide and 7 high, and the board
  4 wide and 6 high inside it.
\<close>

definition sample_finder :: "Size \<Rightarrow> bool \<times> int list" where
  "sample_finder sz = (if sz = Size 5 7 \<or> sz = Size 4 6 then (True, [width sz, height sz]) else (False, []))"

section \<open>Calibration (calibrate\_camera.cpp, wasm\_interface.cpp)\<close>

subsection \<open>Values, failures and the external library\<close>

text \<open>
  \<^verbatim>\<open>Point2f\<close> and \<^verbatim>\<open>Point3f\<close> hold \<^verbatim>\<open>float\<close> coordinates, which the program stores
  and hands on without computing with them: \<open>'f\<close> is any type with a zero (the default
  of a missing \<^verbatim>\<open>z\<close>, and the value of a freshly resized vector's elements).
\<close>

datatype 'f Point2f = Point2f 'f 'f

datatype 'f Point3f = Point3f 'f 'f 'f

text \<open>
  A step of the program returns, or throws, or reads what C++ leaves undefined (a vector
  element out of range, an \<^verbatim>\<open>int\<close> that was never written). \<^verbatim>\<open>cv::Exception\<close> carries
  the text of \<^verbatim>\<open>what()\<close>; \<^verbatim>\<open>std::length_error\<close> is what building or resizing a
  vector with a negative \<^verbatim>\<open>int\<close> count throws.
\<close>

datatype exn = CvException string | LengthError

datatype 'a outcome = Returned 'a | Thrown exn | Undefined

fun and_then :: "'a outcome \<Rightarrow> ('a \<Rightarrow> 'b outcome) \<Rightarrow> 'b outcome" where
  "and_then (Returned x) k = k x"
| "and_then (Thrown e) k = Thrown e"
| "and_then Undefined k = Undefined"

text \<open>
  A loop \<^verbatim>\<open>for (i = 0; i < n; i++)\<close> whose body computes element \<open>i\<close> of a vector:
  the bodies run in order and the first one that does not return ends the loop.
\<close>

fun collect :: "(nat \<Rightarrow> 'a outcome) \<Rightarrow> nat list \<Rightarrow> 'a list outcome" where
  "collect body [] = Returned []"
| "collect body (i # rest) =
     and_then (body i) (\<lambda>x. and_then (collect body rest) (\<lambda>xs. Returned (x # xs)))"

text \<open>
  What the solver writes: the value it returns and its four output arguments. \<open>'m\<close>
  stands for \<^verbatim>\<open>cv::Mat\<close>, \<open>'d\<close> for \<^verbatim>\<open>double\<close>.
\<close>

record ('d, 'm) calibration =
  rms :: 'd
  cameraMatrix :: 'm
  distCoeffs :: 'm
  rvecs :: "'m list"
  tvecs :: "'m list"

text \<open>
  The functions the program calls and does not define. The three of OpenCV return
  \<open>Inl\<close> of the message when they throw \<^verbatim>\<open>cv::Exception\<close>; \<open>cv_norm a b\<close> is
  the call \<^verbatim>\<open>norm(a, b, NORM_L2)\<close>. \<^verbatim>\<open>std::sqrt\<close> and the
  conversion of a \<^verbatim>\<open>size_t\<close> to \<^verbatim>\<open>double\<close> are listed with them; the product, the
  quotient and the sum of two \<^verbatim>\<open>double\<close>s are the operations of \<open>'d\<close>, of which no
  algebraic law is assumed.
\<close>

record ('f, 'd, 'm) extern =
  cv_calibrateCamera ::
    "'f Point3f list list \<Rightarrow> 'f Point2f list list \<Rightarrow> Size \<Rightarrow> string + ('d, 'm) calibration"
  cv_projectPoints ::
    "'f Point3f list \<Rightarrow> 'm \<Rightarrow> 'm \<Rightarrow> 'm \<Rightarrow> 'm \<Rightarrow> string + 'f Point2f list"
  cv_norm :: "'f Point2f list \<Rightarrow> 'f Point2f list \<Rightarrow> string + 'd"
  std_sqrt :: "'d \<Rightarrow> 'd"
  size_to_double :: "nat \<Rightarrow> 'd"

text \<open>
  What a front end hands back: the usage line, a JSON object with an \<^verbatim>\<open>error\<close> text
  (with \<^verbatim>\<open>"success": false\<close>, or with no \<^verbatim>\<open>success\<close> key at all), or the result
  fields. The matrices stand for their printed entries.
\<close>

datatype ('d, 'm) report =
    Usage
  | ErrorReport (success_key: "bool option") (error_text: string)
  | CalibrationReport (report_rms: 'd) (report_camera_matrix: 'm) (report_dist_coeffs: 'm)
      (report_rvecs: "'m list") (report_tvecs: "'m list") (report_perViewErrors: "'d list")

subsection \<open>Re-projection of one view\<close>

text \<open>
  The body that both front ends share: project the view's object points, take the L2
  norm \<^verbatim>\<open>err\<close> against the detected points, and \<^verbatim>\<open>std::sqrt(err*err/imagePoints[i].size())\<close>.
  It yields \<^verbatim>\<open>err\<close> and \<^verbatim>\<open>perViewError\<close>. A thrown \<^verbatim>\<open>cv::Exception\<close> leaves the body.
\<close>

definition view_error ::
  "('f, 'd::{plus,times,inverse,zero}, 'm) extern \<Rightarrow> 'f Point3f list list \<Rightarrow> 'f Point2f list list \<Rightarrow>
   ('d, 'm) calibration \<Rightarrow> nat \<Rightarrow> ('d \<times> 'd) outcome" where
  "view_error ext objectPoints imagePoints cal i =
     (if i < length objectPoints \<and> i < length imagePoints \<and>
         i < length (rvecs cal) \<and> i < length (tvecs cal)
      then (case cv_projectPoints ext (objectPoints ! i) (rvecs cal ! i) (tvecs cal ! i)
                   (cameraMatrix cal) (distCoeffs cal) of
              Inl what \<Rightarrow> Thrown (CvException what)
            | Inr imagePoints2 \<Rightarrow>
                (case cv_norm ext (imagePoints ! i) imagePoints2 of
                   Inl what \<Rightarrow> Thrown (CvException what)
                 | Inr err \<Rightarrow>
                     Returned (err, std_sqrt ext (err * err / size_to_double ext (length (imagePoints ! i))))))
      else Undefined)"

subsection \<open>The command-line front end\<close>

text \<open>
  Its loop also keeps \<^verbatim>\<open>totalError\<close>, which nothing reads afterwards.
\<close>

fun reprojection_loop ::
  "(nat \<Rightarrow> ('d \<times> 'd) outcome) \<Rightarrow> nat list \<Rightarrow> 'd list \<times> 'd \<Rightarrow> ('d::{plus,times} list \<times> 'd) outcome" where
  "reprojection_loop body [] st = Returned st"
| "reprojection_loop body (i # rest) (perViewErrors, totalError) =
     and_then (body i) (\<lambda>(err, perViewError).
       reprojection_loop body rest (perViewErrors @ [perViewError], totalError + err * err))"

text \<open>
  From the solver call to the printed object. Each \<^verbatim>\<open>try\<close> catches \<^verbatim>\<open>cv::Exception\<close>
  only. The number paired with the report is the exit code.
\<close>

definition solve_and_print ::
  "('f, 'd::{plus,times,inverse,zero}, 'm) extern \<Rightarrow> 'f Point3f list list \<Rightarrow> 'f Point2f list list \<Rightarrow>
   Size \<Rightarrow> (int \<times> ('d, 'm) report) outcome" where
  "solve_and_print ext objectPoints imagePoints imageSize =
     (case cv_calibrateCamera ext objectPoints imagePoints imageSize of
        Inl what \<Rightarrow> Returned (0, ErrorReport (Some False) (''OpenCV Calibration Error: '' @ what))
      | Inr cal \<Rightarrow>
          (case reprojection_loop (view_error ext objectPoints imagePoints cal)
                  [0..<length objectPoints] ([], 0) of
             Thrown (CvException what) \<Rightarrow>
               Returned (0, ErrorReport (Some False) (''OpenCV Reprojection Error: '' @ what))
           | Thrown LengthError \<Rightarrow> Thrown LengthError
           | Undefined \<Rightarrow> Undefined
           | Returned (perViewErrors, totalError) \<Rightarrow>
               Returned (0, CalibrationReport (rms cal) (cameraMatrix cal) (distCoeffs cal)
                              (rvecs cal) (tvecs cal) perViewErrors)))"

text \<open>
  The data file is read with \<^verbatim>\<open>operator>>\<close>, which belongs to the standard library:
  a read takes the stream and gives the value it wrote, if it wrote one, and the stream
  after it. \<open>stream_fails\<close> is the test \<^verbatim>\<open>!(infile >> ...)\<close>.
\<close>

record ('s, 'f) istream =
  read_int :: "'s \<Rightarrow> int option \<times> 's"
  read_float :: "'s \<Rightarrow> 'f option \<times> 's"
  stream_fails :: "'s \<Rightarrow> bool"

text \<open>A coordinate that the read did not write keeps the zero that \<^verbatim>\<open>resize\<close> put there.\<close>

definition written_or_zero :: "'f::zero option \<Rightarrow> 'f" where
  "written_or_zero v = (case v of None \<Rightarrow> 0 | Some x \<Rightarrow> x)"

fun read_image_points :: "('s, 'f::zero) istream \<Rightarrow> nat \<Rightarrow> 's \<Rightarrow> 'f Point2f list \<times> 's" where
  "read_image_points io 0 s = ([], s)"
| "read_image_points io (Suc n) s =
     (let (x, s1) = read_float io s;
          (y, s2) = read_float io s1;
          (rest, s3) = read_image_points io n s2
      in (Point2f (written_or_zero x) (written_or_zero y) # rest, s3))"

fun read_object_points :: "('s, 'f::zero) istream \<Rightarrow> nat \<Rightarrow> 's \<Rightarrow> 'f Point3f list \<times> 's" where
  "read_object_points io 0 s = ([], s)"
| "read_object_points io (Suc n) s =
     (let (x, s1) = read_float io s;
          (y, s2) = read_float io s1;
          (z, s3) = read_float io s2;
          (rest, s4) = read_object_points io n s3
      in (Point3f (written_or_zero x) (written_or_zero y) (written_or_zero z) # rest, s4))"

text \<open>
  The loop over the \<open>N\<close> blocks. \<^verbatim>\<open>M\<close> is declared without a value and read without
  a test: a read that writes nothing leaves it undefined, and a negative one makes
  \<^verbatim>\<open>resize\<close> throw. Both vectors of the view are resized to the same \<^verbatim>\<open>M\<close>.
\<close>

fun read_views ::
  "('s, 'f::zero) istream \<Rightarrow> nat \<Rightarrow> 's \<Rightarrow> ('f Point2f list list \<times> 'f Point3f list list) outcome" where
  "read_views io 0 s = Returned ([], [])"
| "read_views io (Suc n) s =
     (case read_int io s of
        (None, s1) \<Rightarrow> Undefined
      | (Some M, s1) \<Rightarrow>
          if M < 0 then Thrown LengthError
          else (let (imagePoints_i, s2) = read_image_points io (nat M) s1;
                    (objectPoints_i, s3) = read_object_points io (nat M) s2
                in and_then (read_views io n s3) (\<lambda>(imagePoints, objectPoints).
                     Returned (imagePoints_i # imagePoints, objectPoints_i # objectPoints))))"

text \<open>
  The header and the blocks: the image size and the two collections the solver gets,
  or the report of a header that could not be read.
\<close>

definition read_data ::
  "('s, 'f::zero) istream \<Rightarrow> 's \<Rightarrow>
   ((int \<times> ('d, 'm) report) + (Size \<times> 'f Point2f list list \<times> 'f Point3f list list)) outcome" where
  "read_data io s0 =
     (let (w_read, s1) = read_int io s0;
          (h_read, s2) = read_int io s1;
          (N_read, s3) = read_int io s2
      in if stream_fails io s3 then Returned (Inl (1, ErrorReport None ''Invalid data header''))
         else (case (w_read, h_read, N_read) of
                 (Some w, Some h, Some n) \<Rightarrow>
                   if n < 0 then Thrown LengthError
                   else and_then (read_views io (nat n) s3) (\<lambda>(imagePoints, objectPoints).
                          Returned (Inr (Size w h, imagePoints, objectPoints)))
               | _ \<Rightarrow> Undefined))"

text \<open>
  \<^verbatim>\<open>main\<close> of calibrate\_camera.cpp. \<open>args\<close> are the arguments after the program's
  name and \<open>open_file\<close> is the opening of the \<^verbatim>\<open>ifstream\<close>.
\<close>

definition calibrate_camera_main ::
  "('f::zero, 'd::{plus,times,inverse,zero}, 'm) extern \<Rightarrow> ('s, 'f) istream \<Rightarrow> (string \<Rightarrow> 's option) \<Rightarrow>
   string list \<Rightarrow> (int \<times> ('d, 'm) report) outcome" where
  "calibrate_camera_main ext io open_file args =
     (case args of
        [] \<Rightarrow> Returned (1, Usage)
      | dataPath # _ \<Rightarrow>
          (case open_file dataPath of
             None \<Rightarrow> Returned (1, ErrorReport None ''Could not open data file'')
           | Some s0 \<Rightarrow>
               and_then (read_data io s0) (\<lambda>r.
                 case r of
                   Inl failure \<Rightarrow> Returned failure
                 | Inr (imageSize, imagePoints, objectPoints) \<Rightarrow>
                     solve_and_print ext objectPoints imagePoints imageSize)))"

subsection \<open>The embedded front end\<close>

text \<open>
  The point collections arrive as JavaScript values, read through embind's \<^verbatim>\<open>val\<close>:
  \<^verbatim>\<open>v["key"]\<close>, \<^verbatim>\<open>v[i]\<close>, \<^verbatim>\<open>v.call<bool>("hasOwnProperty", key)\<close>, \<^verbatim>\<open>as<int>()\<close> and
  \<^verbatim>\<open>as<float>()\<close>. What these give on a value of another shape than the program
  expects is embind's business; they are parameters.
\<close>

record ('v, 'f) embind =
  js_get :: "'v \<Rightarrow> string \<Rightarrow> 'v"
  js_index :: "'v \<Rightarrow> nat \<Rightarrow> 'v"
  js_hasOwnProperty :: "'v \<Rightarrow> string \<Rightarrow> bool"
  as_int :: "'v \<Rightarrow> int"
  as_float :: "'v \<Rightarrow> 'f"

definition js_length :: "('v, 'f) embind \<Rightarrow> 'v \<Rightarrow> int" where
  "js_length js v = as_int js (js_get js v ''length'')"

definition parse_image_point :: "('v, 'f) embind \<Rightarrow> 'v \<Rightarrow> 'f Point2f" where
  "parse_image_point js pt = Point2f (as_float js (js_get js pt ''x'')) (as_float js (js_get js pt ''y''))"

definition parse_object_point :: "('v, 'f::zero) embind \<Rightarrow> 'v \<Rightarrow> 'f Point3f" where
  "parse_object_point js pt =
     (let z = (if js_hasOwnProperty js pt ''z'' then as_float js (js_get js pt ''z'') else 0)
      in Point3f (as_float js (js_get js pt ''x'')) (as_float js (js_get js pt ''y'')) z)"

text \<open>One list of points: \<^verbatim>\<open>M\<close> is its \<^verbatim>\<open>length\<close>, the vector is resized to it and filled.\<close>

definition parse_image_list :: "('v, 'f) embind \<Rightarrow> 'v \<Rightarrow> 'f Point2f list outcome" where
  "parse_image_list js imgPts =
     (let M = js_length js imgPts
      in if M < 0 then Thrown LengthError
         else Returned (map (\<lambda>j. parse_image_point js (js_index js imgPts j)) [0..<nat M]))"

definition parse_object_list :: "('v, 'f::zero) embind \<Rightarrow> 'v \<Rightarrow> 'f Point3f list outcome" where
  "parse_object_list js objPts =
     (let M = js_length js objPts
      in if M < 0 then Thrown LengthError
         else Returned (map (\<lambda>j. parse_object_point js (js_index js objPts j)) [0..<nat M]))"

text \<open>
  The object points of the \<open>N\<close> views: one list for all when \<^verbatim>\<open>sharedObjPoints\<close> is
  set, otherwise element \<open>i\<close> of the collection for view \<open>i\<close>.
\<close>

definition parse_object_points ::
  "('v, 'f::zero) embind \<Rightarrow> bool \<Rightarrow> nat \<Rightarrow> 'v \<Rightarrow> 'f Point3f list list outcome" where
  "parse_object_points js sharedObjPoints N objPointsJS =
     (if sharedObjPoints
      then and_then (parse_object_list js objPointsJS) (\<lambda>sharedObjPtsVec.
             Returned (replicate N sharedObjPtsVec))
      else collect (\<lambda>i. parse_object_list js (js_index js objPointsJS i)) [0..<N])"

text \<open>
  The head of \<^verbatim>\<open>calibrateCamera\<close> of wasm\_interface.cpp: \<open>N\<close>, the test
  \<^verbatim>\<open>objLen != N\<close>, the image points, the object points.
\<close>

definition parse_points ::
  "('v, 'f::zero) embind \<Rightarrow> 'v \<Rightarrow> 'v \<Rightarrow> ('f Point2f list list \<times> 'f Point3f list list) outcome" where
  "parse_points js allImagePointsJS objPointsJS =
     (let N = js_length js allImagePointsJS
      in if N < 0 then Thrown LengthError
         else (let objLen = js_length js objPointsJS;
                   sharedObjPoints = (objLen \<noteq> N)
               in and_then (collect (\<lambda>i. parse_image_list js (js_index js allImagePointsJS i)) [0..<nat N])
                    (\<lambda>imagePoints.
                  and_then (parse_object_points js sharedObjPoints (nat N) objPointsJS)
                    (\<lambda>objectPoints. Returned (imagePoints, objectPoints)))))"

text \<open>
  The rest of it: the solver call inside \<^verbatim>\<open>try\<close>, the re-projection loop outside of
  any \<^verbatim>\<open>try\<close>, the result object. The arguments \<^verbatim>\<open>width\<close> and \<^verbatim>\<open>height\<close> are
  written \<open>w\<close> and \<open>h\<close>.
\<close>

definition solve_and_return ::
  "('f, 'd::{plus,times,inverse,zero}, 'm) extern \<Rightarrow> 'f Point3f list list \<Rightarrow> 'f Point2f list list \<Rightarrow>
   Size \<Rightarrow> ('d, 'm) report outcome" where
  "solve_and_return ext objectPoints imagePoints imageSize =
     (case cv_calibrateCamera ext objectPoints imagePoints imageSize of
        Inl what \<Rightarrow> Returned (ErrorReport None what)
      | Inr cal \<Rightarrow>
          and_then (collect (\<lambda>i. and_then (view_error ext objectPoints imagePoints cal i)
                                  (\<lambda>(err, perViewError). Returned perViewError))
                      [0..<length objectPoints])
            (\<lambda>perViewErrors.
               Returned (CalibrationReport (rms cal) (cameraMatrix cal) (distCoeffs cal)
                           (rvecs cal) (tvecs cal) perViewErrors)))"

definition calibrateCamera ::
  "('f::zero, 'd::{plus,times,inverse,zero}, 'm) extern \<Rightarrow> ('v, 'f) embind \<Rightarrow> 'v \<Rightarrow> 'v \<Rightarrow> int \<Rightarrow> int \<Rightarrow>
   ('d, 'm) report outcome" where
  "calibrateCamera ext js allImagePointsJS objPointsJS w h =
     and_then (parse_points js allImagePointsJS objPointsJS) (\<lambda>(imagePoints, objectPoints).
       solve_and_return ext objectPoints imagePoints (Size w h))"

section \<open>Inputs to run the calibration with\<close>

text \<open>
  JavaScript values, as far as the calibration looks at them, with whole numbers for
  coordinates, and the reads of embind on them: a missing key reads as \<^verbatim>\<open>undefined\<close>,
  which converts to 0.
\<close>

datatype jsval = JsUndefined | JsNumber int | JsObject "(string \<times> jsval) list" | JsArray "jsval list"

fun jsval_get :: "jsval \<Rightarrow> string \<Rightarrow> jsval" where
  "jsval_get (JsObject kvs) k = (case map_of kvs k of Some v \<Rightarrow> v | None \<Rightarrow> JsUndefined)"
| "jsval_get (JsArray xs) k = (if k = ''length'' then JsNumber (int (length xs)) else JsUndefined)"
| "jsval_get v k = JsUndefined"

fun jsval_index :: "jsval \<Rightarrow> nat \<Rightarrow> jsval" where
  "jsval_index (JsArray xs) i = (if i < length xs then xs ! i else JsUndefined)"
| "jsval_index v i = JsUndefined"

fun jsval_hasOwnProperty :: "jsval \<Rightarrow> string \<Rightarrow> bool" where
  "jsval_hasOwnProperty (JsObject kvs) k = (map_of kvs k \<noteq> None)"
| "jsval_hasOwnProperty (JsArray xs) k = (k = ''length'')"
| "jsval_hasOwnProperty v k = False"

fun jsval_number :: "jsval \<Rightarrow> int" where
  "jsval_number (JsNumber n) = n"
| "jsval_number v = 0"

definition sample_embind :: "(jsval, int) embind" where
  "sample_embind = \<lparr> js_get = jsval_get, js_index = jsval_index,
     js_hasOwnProperty = jsval_hasOwnProperty, as_int = jsval_number, as_float = jsval_number \<rparr>"

definition js_xy :: "int \<Rightarrow> int \<Rightarrow> jsval" where
  "js_xy x y = JsObject [(''x'', JsNumber x), (''y'', JsNumber y)]"

definition js_xyz :: "int \<Rightarrow> int \<Rightarrow> int \<Rightarrow> jsval" where
  "js_xyz x y z = JsObject [(''x'', JsNumber x), (''y'', JsNumber y), (''z'', JsNumber z)]"

text \<open>
  A library to run with: the projection drops \<open>z\<close>, the norm is the L2 norm of the
  differences and throws on lists of different lengths, and the solver throws unless
  there is a view and every view has as many object points as image points. The
  matrices are numbers.
\<close>

definition sample_projectPoints ::
  "int Point3f list \<Rightarrow> nat \<Rightarrow> nat \<Rightarrow> nat \<Rightarrow> nat \<Rightarrow> string + int Point2f list" where
  "sample_projectPoints pts rvec tvec K D =
     Inr (map (\<lambda>p. case p of Point3f x y z \<Rightarrow> Point2f x y) pts)"

definition sample_norm :: "int Point2f list \<Rightarrow> int Point2f list \<Rightarrow> string + real" where
  "sample_norm a b =
     (if length a = length b
      then Inr (sqrt (real_of_int (sum_list (map2
             (\<lambda>p q. case p of Point2f x y \<Rightarrow> (case q of Point2f u v \<Rightarrow> (x - u) * (x - u) + (y - v) * (y - v)))
             a b))))
      else Inl ''sizes differ'')"

definition sample_solution :: "nat \<Rightarrow> (real, nat) calibration" where
  "sample_solution n = \<lparr> rms = 1 / 2, cameraMatrix = 1, distCoeffs = 2,
     rvecs = replicate n 3, tvecs = replicate n 4 \<rparr>"

definition sample_calibrateCamera ::
  "int Point3f list list \<Rightarrow> int Point2f list list \<Rightarrow> Size \<Rightarrow> string + (real, nat) calibration" where
  "sample_calibrateCamera objectPoints imagePoints imageSize =
     (if objectPoints \<noteq> [] \<and> map length objectPoints = map length imagePoints
      then Inr (sample_solution (length objectPoints))
      else Inl ''bad point sets'')"

definition sample_extern :: "(int, real, nat) extern" where
  "sample_extern = \<lparr> cv_calibrateCamera = sample_calibrateCamera,
     cv_projectPoints = sample_projectPoints, cv_norm = sample_norm,
     std_sqrt = sqrt, size_to_double = real \<rparr>"

text \<open>
  The same library, less strict: the solver accepts whatever it is given, and the norm
  compares as many points as both lists have.
\<close>

definition lenient_norm :: "int Point2f list \<Rightarrow> int Point2f list \<Rightarrow> string + real" where
  "lenient_norm a b =
     Inr (sqrt (real_of_int (sum_list (map2
            (\<lambda>p q. case p of Point2f x y \<Rightarrow> (case q of Point2f u v \<Rightarrow> (x - u) * (x - u) + (y - v) * (y - v)))
            a b))))"

definition lenient_extern :: "(int, real, nat) extern" where
  "lenient_extern = sample_extern\<lparr> cv_calibrateCamera :=
     (\<lambda>objectPoints imagePoints imageSize. Inr (sample_solution (length objectPoints))),
     cv_norm := lenient_norm \<rparr>"

text \<open>The same library with a projection that throws.\<close>

definition failing_projection_extern :: "(int, real, nat) extern" where
  "failing_projection_extern = sample_extern\<lparr> cv_projectPoints :=
     (\<lambda>pts rvec tvec K D. Inl ''projection failed'') \<rparr>"

text \<open>Two views of one point each, and the board's single point at the origin for both.\<close>

definition sample_imagePoints :: "int Point2f list list" where
  "sample_imagePoints = [[Point2f 2 0], [Point2f 1 1]]"

definition sample_objectPoints :: "int Point3f list list" where
  "sample_objectPoints = [[Point3f 0 0 0], [Point3f 0 0 0]]"

text \<open>
  A data file as the list of its numbers, with the flag that a read past the end sets;
  after that no read writes.
\<close>

definition sample_read :: "int list \<times> bool \<Rightarrow> int option \<times> (int list \<times> bool)" where
  "sample_read s =
     (case s of
        (x # rest, False) \<Rightarrow> (Some x, (rest, False))
      | (xs, failed) \<Rightarrow> (None, (xs, True)))"

definition sample_istream :: "(int list \<times> bool, int) istream" where
  "sample_istream = \<lparr> read_int = sample_read, read_float = sample_read, stream_fails = snd \<rparr>"

section \<open>Properties of the pattern search\<close>

subsection \<open>The generated sizes and the sorting contract\<close>

lemma set_inner:
  "set (concat (map (\<lambda>c. if P c then [Size c r] else []) cs)) = {Size c r | c. c \<in> set cs \<and> P c}"
  by (induction cs) auto

lemma set_nested:
  "set (concat (map (\<lambda>r. concat (map (\<lambda>c. if P r c then [Size c r] else []) cs)) rs))
     = {Size c r | r c. r \<in> set rs \<and> c \<in> set cs \<and> P r c}"
  by (induction rs) (auto simp: set_inner)

lemma distinct_inner:
  "distinct cs \<Longrightarrow> distinct (concat (map (\<lambda>c. if P c then [Size c r] else []) cs))"
  by (induction cs) (auto simp: set_inner)

lemma distinct_nested:
  "distinct rs \<Longrightarrow> distinct cs \<Longrightarrow>
   distinct (concat (map (\<lambda>r. concat (map (\<lambda>c. if P r c then [Size c r] else []) cs)) rs))"
  by (induction rs) (auto simp: set_inner set_nested distinct_inner)

lemma set_generated_sizes:
  "set (generated_sizes d) =
     {Size c r | r c. 3 \<le> r \<and> r \<le> 20 \<and> 3 \<le> c \<and> c \<le> 20 \<and> r * c \<le> d + 20}"
  unfolding generated_sizes_def set_nested set_upto atLeastAtMost_iff by (simp only: conj_assoc)

lemma distinct_generated_sizes: "distinct (generated_sizes d)"
  unfolding generated_sizes_def by (rule distinct_nested) (rule distinct_upto)+

lemma mset_insert_by: "mset (insert_by cmp x xs) = add_mset x (mset xs)"
  by (induction xs) auto

lemma set_insert_by: "set (insert_by cmp x xs) = insert x (set xs)"
  by (induction xs) auto

lemma sorted_insert_by:
  "sorted_wrt (\<lambda>a b. \<not> area_greater b a) xs \<Longrightarrow>
   sorted_wrt (\<lambda>a b. \<not> area_greater b a) (insert_by area_greater x xs)"
  by (induction xs) (auto simp: set_insert_by area_greater_def)

lemma mset_foldr_insert_by: "mset (foldr (insert_by cmp) xs []) = mset xs"
  by (induction xs) (auto simp: mset_insert_by)

lemma sorted_foldr_insert_by:
  "sorted_wrt (\<lambda>a b. \<not> area_greater b a) (foldr (insert_by area_greater) xs [])"
  by (induction xs) (auto simp: sorted_insert_by)

lemma insertion_sort_contract: "std_sort_contract insertion_sort"
  by (simp add: std_sort_contract_def insertion_sort_def mset_foldr_insert_by sorted_foldr_insert_by)

lemma contract_set: "std_sort_contract srt \<Longrightarrow> set (srt area_greater xs) = set xs"
  unfolding std_sort_contract_def by (metis set_mset_mset)

lemma contract_distinct: "std_sort_contract srt \<Longrightarrow> distinct (srt area_greater xs) = distinct xs"
  unfolding std_sort_contract_def by (metis mset_eq_imp_distinct_iff)

lemma contract_sorted:
  "std_sort_contract srt \<Longrightarrow>
   sorted_wrt (\<lambda>a b. width b * height b \<le> width a * height a) (srt area_greater xs)"
proof -
  assume "std_sort_contract srt"
  then have "sorted_wrt (\<lambda>a b. \<not> area_greater b a) (srt area_greater xs)"
    by (simp add: std_sort_contract_def)
  then show ?thesis
    by (simp add: area_greater_def not_less)
qed

lemma sizesToTry_auto:
  "\<not> (rows > 0 \<and> cols > 0) \<Longrightarrow>
   sizesToTry srt features rows cols = srt area_greater (generated_sizes (int (length features)))"
  unfolding sizesToTry_def Let_def by (rule if_not_P)

subsection \<open>The loop\<close>

lemma search_loop_success_step:
  "fst (finder sz) \<Longrightarrow>
   search_loop finder (sz # rest) st =
     st\<lparr> found := True, foundSize := sz, corners := snd (finder sz), attempts := attempts st @ [sz] \<rparr>"
  by (cases "finder sz") simp

lemma search_loop_failure_step:
  "\<not> fst (finder sz) \<Longrightarrow>
   search_loop finder (sz # rest) st =
     search_loop finder rest (st\<lparr> found := False, corners := snd (finder sz), attempts := attempts st @ [sz] \<rparr>)"
  by (cases "finder sz") simp

lemma search_loop_all_fail:
  "\<forall>x\<in>set sizes. \<not> fst (finder x) \<Longrightarrow>
   found (search_loop finder sizes st) = (if sizes = [] then found st else False) \<and>
   foundSize (search_loop finder sizes st) = foundSize st \<and>
   attempts (search_loop finder sizes st) = attempts st @ sizes"
proof (induction sizes arbitrary: st)
  case Nil
  show ?case by simp
next
  case (Cons sz rest)
  then have "\<not> fst (finder sz)" and "\<forall>x\<in>set rest. \<not> fst (finder x)"
    by simp_all
  let ?st' = "st\<lparr> found := False, corners := snd (finder sz), attempts := attempts st @ [sz] \<rparr>"
  have step: "search_loop finder (sz # rest) st = search_loop finder rest ?st'"
    using \<open>\<not> fst (finder sz)\<close> by (rule search_loop_failure_step)
  show ?case
    unfolding step using Cons.IH [of ?st', OF \<open>\<forall>x\<in>set rest. \<not> fst (finder x)\<close>] by simp
qed

lemma search_loop_first_success:
  "\<forall>x\<in>set pre. \<not> fst (finder x) \<Longrightarrow> fst (finder s) \<Longrightarrow>
   search_loop finder (pre @ s # post) st =
     st\<lparr> found := True, foundSize := s, corners := snd (finder s), attempts := attempts st @ pre @ [s] \<rparr>"
proof (induction pre arbitrary: st)
  case Nil
  then show ?case by (simp only: append_Nil search_loop_success_step)
next
  case (Cons sz pre)
  then have "\<not> fst (finder sz)" and "\<forall>x\<in>set pre. \<not> fst (finder x)"
    by simp_all
  let ?st' = "st\<lparr> found := False, corners := snd (finder sz), attempts := attempts st @ [sz] \<rparr>"
  have step: "search_loop finder ((sz # pre) @ s # post) st = search_loop finder (pre @ s # post) ?st'"
    unfolding append_Cons using \<open>\<not> fst (finder sz)\<close> by (rule search_loop_failure_step)
  show ?case
    unfolding step
    using Cons.IH [of ?st', OF \<open>\<forall>x\<in>set pre. \<not> fst (finder x)\<close> Cons.prems(2)] by simp
qed

lemma first_success_split:
  "\<exists>x\<in>set sizes. P x \<Longrightarrow> \<exists>pre s post. sizes = pre @ s # post \<and> (\<forall>x\<in>set pre. \<not> P x) \<and> P s"
  by (metis split_list_first_prop)



subsection \<open>Candidate lists\<close>

text \<open>
  C4. With a hint of \<open>r\<close> rows and \<open>c\<close> columns, both positive, the list to try is
  \<^verbatim>\<open>Size(c, r)\<close>, \<^verbatim>\<open>Size(r, c)\<close>, \<^verbatim>\<open>Size(c-1, r-1)\<close>, \<^verbatim>\<open>Size(r-1, c-1)\<close> in this order when
  both exceed 1, and only the first two when one of them is 1.
\<close>

theorem hinted_candidates:
  assumes "r > 0" and "c > 0"
  shows "sizesToTry srt features r c =
           (if r > 1 \<and> c > 1 then [Size c r, Size r c, Size (c - 1) (r - 1), Size (r - 1) (c - 1)]
            else [Size c r, Size r c])"
  using assms by (simp add: sizesToTry_def hinted_sizes_def)

theorem hinted_candidates_witness:
  "(5::int) > 0 \<and> (7::int) > 0 \<and>
   sizesToTry insertion_sort ([]::unit list) 5 7 = [Size 7 5, Size 5 7, Size 6 4, Size 4 6] \<and>
   sizesToTry insertion_sort ([]::unit list) 1 7 = [Size 7 1, Size 1 7]"
  using hinted_candidates [of 5 7 insertion_sort "[]::unit list"]
        hinted_candidates [of 1 7 insertion_sort "[]::unit list"]
  by simp

text \<open>
  C3, as far as the program goes. Without a hint, and with a \<^verbatim>\<open>std::sort\<close> that keeps
  its contract, the list to try holds exactly the sizes \<^verbatim>\<open>Size(c, r)\<close> with \<open>r\<close> and
  \<open>c\<close> between 3 and 20 and \<open>r * c\<close> at most the feature count plus 20, each once, and
  no size is followed by one of larger area. Nothing is said of sizes of equal area.
\<close>

theorem auto_candidates:
  assumes "std_sort_contract srt" and "\<not> (rows > 0 \<and> cols > 0)"
  shows "set (sizesToTry srt features rows cols) =
           {Size c r | r c. 3 \<le> r \<and> r \<le> 20 \<and> 3 \<le> c \<and> c \<le> 20 \<and> r * c \<le> int (length features) + 20}
         \<and> distinct (sizesToTry srt features rows cols)
         \<and> sorted_wrt (\<lambda>a b. width b * height b \<le> width a * height a)
              (sizesToTry srt features rows cols)"
proof -
  let ?gen = "generated_sizes (int (length features))"
  have eq: "sizesToTry srt features rows cols = srt area_greater ?gen"
    using assms(2) by (rule sizesToTry_auto)
  have "set (srt area_greater ?gen) = set ?gen"
    using assms(1) by (rule contract_set)
  moreover have "distinct (srt area_greater ?gen)"
    using assms(1) by (simp add: contract_distinct distinct_generated_sizes)
  moreover have "sorted_wrt (\<lambda>a b. width b * height b \<le> width a * height a) (srt area_greater ?gen)"
    using assms(1) by (rule contract_sorted)
  ultimately show ?thesis
    unfolding eq by (simp only: set_generated_sizes simp_thms)
qed

theorem auto_candidates_witness:
  "std_sort_contract insertion_sort \<and> \<not> ((0::int) > 0 \<and> (0::int) > 0) \<and>
   set (sizesToTry insertion_sort [()] 0 0) =
     {Size c r | r c. 3 \<le> r \<and> r \<le> 20 \<and> 3 \<le> c \<and> c \<le> 20 \<and> r * c \<le> int (length [()]) + 20} \<and>
   distinct (sizesToTry insertion_sort [()] 0 0) \<and>
   sorted_wrt (\<lambda>a b. width b * height b \<le> width a * height a) (sizesToTry insertion_sort [()] 0 0)"
  using auto_candidates [OF insertion_sort_contract, of 0 0 "[()]"] insertion_sort_contract
  by simp

lemma sizesToTry_five_features:
  "sizesToTry gnu_std_sort [(), (), (), (), ()] 0 0 =
     [Size 5 5, Size 3 8, Size 4 6, Size 8 3, Size 6 4, Size 3 7, Size 7 3, Size 5 4, Size 4 5,
      Size 3 6, Size 6 3, Size 4 4, Size 3 5, Size 5 3, Size 3 4, Size 4 3, Size 3 3]"
  by code_simp

lemma sizesToTry_no_features:
  "sizesToTry gnu_std_sort ([]::unit list) 0 0 =
     [Size 5 4, Size 4 5, Size 6 3, Size 3 6, Size 4 4, Size 5 3, Size 3 5, Size 4 3, Size 3 4, Size 3 3]"
  by code_simp

lemma heap_sort_run:
  "introsort_loop area_greater (generated_sizes 5) 0 17 0 =
     [Size 5 5, Size 6 4, Size 4 6, Size 8 3, Size 3 8, Size 3 7, Size 7 3, Size 5 4, Size 4 5,
      Size 6 3, Size 3 6, Size 4 4, Size 3 5, Size 5 3, Size 4 3, Size 3 4, Size 3 3]"
  by code_simp

text \<open>
  C3 as stated asks that sizes of equal area come with \<open>r\<close> ascending, then \<open>c\<close>
  ascending. With no hint and five detected features there are 17 candidates, one more
  than \<^verbatim>\<open>std::sort\<close> leaves to insertion sort alone, and the partition step moves
  \<^verbatim>\<open>Size(3, 8)\<close>, of 8 rows, and \<^verbatim>\<open>Size(4, 6)\<close>, of 6 rows, before \<^verbatim>\<open>Size(8, 3)\<close>, of 3
  rows, all of area 24.
\<close>

theorem auto_tie_order_counterexample:
  "sizesToTry gnu_std_sort [(), (), (), (), ()] 0 0 =
     [Size 5 5, Size 3 8, Size 4 6, Size 8 3, Size 6 4, Size 3 7, Size 7 3, Size 5 4, Size 4 5,
      Size 3 6, Size 6 3, Size 4 4, Size 3 5, Size 5 3, Size 3 4, Size 4 3, Size 3 3]
   \<and> \<not> sorted_wrt (\<lambda>a b. width a * height a > width b * height b \<or>
          (width a * height a = width b * height b \<and>
           (height a < height b \<or> (height a = height b \<and> width a \<le> width b))))
        (sizesToTry gnu_std_sort [(), (), (), (), ()] 0 0)"
  by (simp add: sizesToTry_five_features)

text \<open>
  C8 as stated asks that no size occurs twice in the list to try. A square hint gives
  each of its two sizes twice.
\<close>

theorem square_hint_duplicates_counterexample:
  "\<not> distinct (sizesToTry insertion_sort ([]::unit list) 5 5)"
  by (simp add: sizesToTry_def hinted_sizes_def)

text \<open>
  C8, as far as the program goes. The list to try is free of repetitions exactly when
  it does not come from a square hint: without a hint always, with a hint when
  \<open>rows\<close> and \<open>cols\<close> differ.
\<close>

theorem candidates_distinct:
  assumes "std_sort_contract srt"
  shows "distinct (sizesToTry srt features rows cols) \<longleftrightarrow> \<not> (rows > 0 \<and> cols > 0 \<and> rows = cols)"
  using assms
  by (auto simp: sizesToTry_def hinted_sizes_def contract_distinct distinct_generated_sizes)

theorem candidates_distinct_witness:
  "std_sort_contract insertion_sort \<and>
   distinct (sizesToTry insertion_sort ([]::unit list) 6 9) \<and>
   distinct (sizesToTry insertion_sort ([]::unit list) 0 0) \<and>
   \<not> distinct (sizesToTry insertion_sort ([]::unit list) 4 4)"
  using candidates_distinct [OF insertion_sort_contract, of "[]::unit list" 6 9]
        candidates_distinct [OF insertion_sort_contract, of "[]::unit list" 0 0]
        candidates_distinct [OF insertion_sort_contract, of "[]::unit list" 4 4]
        insertion_sort_contract
  by simp



subsection \<open>First success\<close>

text \<open>
  C7. For any list of sizes and any corner-finder, either the list splits into sizes on
  which the finder fails, a size \<open>s\<close> on which it succeeds, and a rest: then the loop
  ends with \<open>found\<close> set, \<open>foundSize = s\<close>, the corners the finder wrote for \<open>s\<close>, and
  it has called the finder on the sizes up to \<open>s\<close> and no further, and the report
  carries \<open>s\<close> and those corners after refinement. Or the finder fails on every size:
  then the loop has called it on all of them and the report is that nothing was found.
\<close>

theorem pattern_search_first_success:
  "(\<exists>pre s post. sizes = pre @ s # post \<and> (\<forall>x\<in>set pre. \<not> fst (finder x)) \<and>
       finder s = (True, corners (search_loop finder sizes initial_search)) \<and>
       found (search_loop finder sizes initial_search) \<and>
       foundSize (search_loop finder sizes initial_search) = s \<and>
       attempts (search_loop finder sizes initial_search) = pre @ [s] \<and>
       report_detection refine (search_loop finder sizes initial_search) =
         Detected (height s) (width s) (refine (snd (finder s))))
   \<or> ((\<forall>x\<in>set sizes. \<not> fst (finder x)) \<and>
       \<not> found (search_loop finder sizes initial_search) \<and>
       attempts (search_loop finder sizes initial_search) = sizes \<and>
       report_detection refine (search_loop finder sizes initial_search) = NotFound)"
proof (cases "\<exists>x\<in>set sizes. fst (finder x)")
  case True
  then obtain pre s post where split: "sizes = pre @ s # post"
      and before: "\<forall>x\<in>set pre. \<not> fst (finder x)" and here: "fst (finder s)"
    using first_success_split [of sizes "\<lambda>x. fst (finder x)"] by blast
  have run: "search_loop finder sizes initial_search =
      initial_search\<lparr> found := True, foundSize := s, corners := snd (finder s),
        attempts := pre @ [s] \<rparr>"
    unfolding split using before here by (simp add: search_loop_first_success initial_search_def)
  have call: "finder s = (True, snd (finder s))"
    using here by (cases "finder s") simp
  have "sizes = pre @ s # post \<and> (\<forall>x\<in>set pre. \<not> fst (finder x)) \<and>
       finder s = (True, corners (search_loop finder sizes initial_search)) \<and>
       found (search_loop finder sizes initial_search) \<and>
       foundSize (search_loop finder sizes initial_search) = s \<and>
       attempts (search_loop finder sizes initial_search) = pre @ [s] \<and>
       report_detection refine (search_loop finder sizes initial_search) =
         Detected (height s) (width s) (refine (snd (finder s)))"
    unfolding run using split before call by (simp add: report_detection_def initial_search_def)
  then show ?thesis by blast
next
  case False
  then have none: "\<forall>x\<in>set sizes. \<not> fst (finder x)" by simp
  from search_loop_all_fail [OF none, of initial_search]
  have "\<not> found (search_loop finder sizes initial_search) \<and>
        attempts (search_loop finder sizes initial_search) = sizes"
    by (simp add: initial_search_def)
  with none show ?thesis
    by (simp add: report_detection_def)
qed

theorem pattern_search_first_success_witness:
  "found (search_loop sample_finder [Size 7 5, Size 5 7, Size 6 4, Size 4 6] initial_search) \<and>
   foundSize (search_loop sample_finder [Size 7 5, Size 5 7, Size 6 4, Size 4 6] initial_search) = Size 5 7 \<and>
   attempts (search_loop sample_finder [Size 7 5, Size 5 7, Size 6 4, Size 4 6] initial_search)
     = [Size 7 5, Size 5 7] \<and>
   report_detection id (search_loop sample_finder [Size 7 5, Size 5 7, Size 6 4, Size 4 6] initial_search)
     = Detected 7 5 [5, 7] \<and>
   attempts (search_loop sample_finder [Size 3 3, Size 9 6] initial_search) = [Size 3 3, Size 9 6] \<and>
   report_detection id (search_loop sample_finder [Size 3 3, Size 9 6] initial_search) = NotFound"
  using pattern_search_first_success [of "[Size 7 5, Size 5 7, Size 6 4, Size 4 6]" sample_finder id]
        pattern_search_first_success [of "[Size 3 3, Size 9 6]" sample_finder id]
  by (simp add: sample_finder_def initial_search_def report_detection_def)

section \<open>Properties of the calibration\<close>

subsection \<open>Outcomes and loops\<close>

lemma and_then_Returned:
  "and_then m k = Returned y \<longleftrightarrow> (\<exists>x. m = Returned x \<and> k x = Returned y)"
  by (cases m) simp_all

lemma collect_Returned:
  "collect body idx = Returned xs \<Longrightarrow>
   length xs = length idx \<and> (\<forall>k < length idx. body (idx ! k) = Returned (xs ! k))"
proof (induction idx arbitrary: xs)
  case Nil
  then show ?case by simp
next
  case (Cons i rest)
  from Cons.prems obtain x xs' where x: "body i = Returned x"
      and rest: "collect body rest = Returned xs'" and xs: "xs = x # xs'"
    by (auto simp: and_then_Returned)
  from Cons.IH [OF rest] have "length xs' = length rest"
      and "\<forall>k < length rest. body (rest ! k) = Returned (xs' ! k)"
    by simp_all
  with x xs show ?case
    by (auto simp: nth_Cons split: nat.splits)
qed

lemma collect_upt_Returned:
  "collect body [0..<n] = Returned xs \<Longrightarrow>
   length xs = n \<and> (\<forall>i < n. body i = Returned (xs ! i))"
  using collect_Returned [of body "[0..<n]" xs] by simp

lemma collect_returns:
  "\<forall>i \<in> set idx. \<exists>x. body i = Returned x \<Longrightarrow> \<exists>xs. collect body idx = Returned xs"
  by (induction idx) auto

lemmas sample_defs = sample_embind_def js_length_def parse_image_list_def parse_image_point_def
  js_xy_def js_xyz_def parse_points_def parse_object_points_def parse_object_list_def
  parse_object_point_def sample_extern_def sample_calibrateCamera_def sample_solution_def
  sample_projectPoints_def sample_norm_def view_error_def upt_rec numeral_2_eq_2

subsection \<open>The data file\<close>

lemma length_read_image_points: "length (fst (read_image_points io n s)) = n"
  by (induction n arbitrary: s) (simp_all add: split_beta)

lemma length_read_object_points: "length (fst (read_object_points io n s)) = n"
  by (induction n arbitrary: s) (simp_all add: split_beta)

lemma read_views_counts:
  "read_views io n s = Returned (imagePoints, objectPoints) \<Longrightarrow>
   length imagePoints = n \<and> length objectPoints = n \<and>
   (\<forall>i < n. length (objectPoints ! i) = length (imagePoints ! i))"
proof (induction n arbitrary: s imagePoints objectPoints)
  case 0
  then show ?case by simp
next
  case (Suc n)
  obtain m s1 where rd: "read_int io s = (m, s1)"
    by (cases "read_int io s")
  with Suc.prems obtain M where m: "m = Some M" and nonneg: "\<not> M < 0"
    by (cases m) (auto split: if_splits)
  let ?ip = "fst (read_image_points io (nat M) s1)"
  let ?s2 = "snd (read_image_points io (nat M) s1)"
  let ?op = "fst (read_object_points io (nat M) ?s2)"
  let ?s3 = "snd (read_object_points io (nat M) ?s2)"
  from Suc.prems rd m nonneg obtain ips ops where
      rest: "read_views io n ?s3 = Returned (ips, ops)"
      and ip: "imagePoints = ?ip # ips" and op: "objectPoints = ?op # ops"
    by (auto simp: split_beta and_then_Returned)
  from Suc.IH [OF rest] have "length ips = n" "length ops = n"
      "\<forall>i < n. length (ops ! i) = length (ips ! i)"
    by simp_all
  then show ?case
    unfolding ip op
    by (auto simp: nth_Cons length_read_image_points length_read_object_points split: nat.splits)
qed

text \<open>
  C9. Whenever the command-line front end has read a data file, it holds as many
  object-point sets as image-point sets, and the two sets of every view have the same
  number of points: both were resized to the count \<^verbatim>\<open>M\<close> read for the view.
\<close>

theorem data_file_counts_agree:
  assumes "read_data io s0 = Returned (Inr (imageSize, imagePoints, objectPoints))"
  shows "length objectPoints = length imagePoints \<and>
         (\<forall>i < length imagePoints. length (objectPoints ! i) = length (imagePoints ! i))"
proof -
  from assms obtain n s3 where "read_views io n s3 = Returned (imagePoints, objectPoints)"
    by (auto simp: read_data_def split_beta and_then_Returned
          split: if_splits option.splits)
  from read_views_counts [OF this] show ?thesis
    by simp
qed

theorem data_file_counts_agree_witness:
  "(read_data sample_istream ([640, 480, 2, 1, 10, 20, 1, 2, 0, 2, 5, 6, 7, 8, 1, 1, 1, 2, 2, 2], False)
      :: ((int \<times> (real, nat) report) + (Size \<times> int Point2f list list \<times> int Point3f list list)) outcome)
     = Returned (Inr (Size 640 480, [[Point2f 10 20], [Point2f 5 6, Point2f 7 8]],
                      [[Point3f 1 2 0], [Point3f 1 1 1, Point3f 2 2 2]]))
   \<and> length [[Point3f 1 2 0], [Point3f 1 1 1, Point3f 2 2 (2::int)]]
       = length [[Point2f 10 20], [Point2f 5 6, Point2f 7 (8::int)]]
   \<and> length ([[Point3f 1 2 0], [Point3f 1 1 1, Point3f 2 2 (2::int)]] ! 0)
       = length ([[Point2f 10 20], [Point2f 5 6, Point2f 7 (8::int)]] ! 0)
   \<and> length ([[Point3f 1 2 0], [Point3f 1 1 1, Point3f 2 2 (2::int)]] ! 1)
       = length ([[Point2f 10 20], [Point2f 5 6, Point2f 7 (8::int)]] ! 1)"
proof -
  have run: "(read_data sample_istream ([640, 480, 2, 1, 10, 20, 1, 2, 0, 2, 5, 6, 7, 8, 1, 1, 1, 2, 2, 2], False)
      :: ((int \<times> (real, nat) report) + (Size \<times> int Point2f list list \<times> int Point3f list list)) outcome)
     = Returned (Inr (Size 640 480, [[Point2f 10 20], [Point2f 5 6, Point2f 7 8]],
                      [[Point3f 1 2 0], [Point3f 1 1 1, Point3f 2 2 2]]))"
    by (simp add: read_data_def sample_istream_def sample_read_def written_or_zero_def numeral_2_eq_2)
  note counts = data_file_counts_agree [OF run]
  from counts have "length [[Point3f 1 2 0], [Point3f 1 1 1, Point3f 2 2 (2::int)]]
       = length [[Point2f 10 20], [Point2f 5 6, Point2f 7 (8::int)]]"
    by (rule conjunct1)
  moreover from counts have "length ([[Point3f 1 2 0], [Point3f 1 1 1, Point3f 2 2 (2::int)]] ! 0)
       = length ([[Point2f 10 20], [Point2f 5 6, Point2f 7 (8::int)]] ! 0)"
    by simp
  moreover from counts have "length ([[Point3f 1 2 0], [Point3f 1 1 1, Point3f 2 2 (2::int)]] ! 1)
       = length ([[Point2f 10 20], [Point2f 5 6, Point2f 7 (8::int)]] ! 1)"
    by simp
  ultimately show ?thesis
    using run by (intro conjI)
qed

subsection \<open>Object points per view or shared\<close>

lemma parse_points_Returned:
  assumes "parse_points js allImagePointsJS objPointsJS = Returned (imagePoints, objectPoints)"
  shows "\<not> js_length js allImagePointsJS < 0"
    and "collect (\<lambda>i. parse_image_list js (js_index js allImagePointsJS i))
           [0..<nat (js_length js allImagePointsJS)] = Returned imagePoints"
    and "parse_object_points js (js_length js objPointsJS \<noteq> js_length js allImagePointsJS)
           (nat (js_length js allImagePointsJS)) objPointsJS = Returned objectPoints"
  using assms
  by (auto simp: parse_points_def Let_def and_then_Returned split: if_splits)

text \<open>
  C2. Once the embedded front end has read its two collections, there are as many
  object-point sets as image-point sets, \<open>N\<close>. If the \<^verbatim>\<open>length\<close> of the object-points
  collection equals \<open>N\<close>, the set of view \<open>i\<close> is the list read from element \<open>i\<close> of the
  collection. Otherwise the collection itself is read as one list of points and every
  view's set is that list.
\<close>

theorem object_points_reconciled:
  assumes "parse_points js allImagePointsJS objPointsJS = Returned (imagePoints, objectPoints)"
  shows "length imagePoints = nat (js_length js allImagePointsJS)
         \<and> length objectPoints = nat (js_length js allImagePointsJS)
         \<and> (if js_length js objPointsJS = js_length js allImagePointsJS
            then \<forall>i < nat (js_length js allImagePointsJS).
                   parse_object_list js (js_index js objPointsJS i) = Returned (objectPoints ! i)
            else \<exists>sharedObjPtsVec.
                   parse_object_list js objPointsJS = Returned sharedObjPtsVec \<and>
                   objectPoints = replicate (nat (js_length js allImagePointsJS)) sharedObjPtsVec)"
proof -
  let ?N = "nat (js_length js allImagePointsJS)"
  note parts = parse_points_Returned [OF assms]
  from collect_upt_Returned [OF parts(2)] have img: "length imagePoints = ?N"
    by simp
  show ?thesis
  proof (cases "js_length js objPointsJS = js_length js allImagePointsJS")
    case True
    with parts(3) have "collect (\<lambda>i. parse_object_list js (js_index js objPointsJS i)) [0..<?N]
        = Returned objectPoints"
      by (simp add: parse_object_points_def)
    from collect_upt_Returned [OF this] img True show ?thesis
      by simp
  next
    case False
    with parts(3) obtain sharedObjPtsVec where
        "parse_object_list js objPointsJS = Returned sharedObjPtsVec"
        "objectPoints = replicate ?N sharedObjPtsVec"
      by (auto simp: parse_object_points_def and_then_Returned)
    with img False show ?thesis
      by simp
  qed
qed

theorem object_points_reconciled_witness:
  "parse_points sample_embind (JsArray [JsArray [js_xy 2 0], JsArray [js_xy 1 1]])
     (JsArray [JsArray [js_xyz 0 0 5], JsArray [js_xy 1 1]])
     = Returned ([[Point2f 2 0], [Point2f 1 1]], [[Point3f 0 0 5], [Point3f 1 1 0]])
   \<and> parse_object_list sample_embind (JsArray [js_xyz 0 0 5]) = Returned [Point3f 0 0 5]
   \<and> parse_object_list sample_embind (JsArray [js_xy 1 1]) = Returned [Point3f 1 1 0]
   \<and> parse_points sample_embind (JsArray [JsArray [js_xy 2 0], JsArray [js_xy 1 1]])
     (JsArray [js_xy 0 0, js_xy 1 0, js_xyz 0 1 7])
     = Returned ([[Point2f 2 0], [Point2f 1 1]],
                 [[Point3f 0 0 0, Point3f 1 0 0, Point3f 0 1 7], [Point3f 0 0 0, Point3f 1 0 0, Point3f 0 1 7]])
   \<and> parse_object_list sample_embind (JsArray [js_xy 0 0, js_xy 1 0, js_xyz 0 1 7])
     = Returned [Point3f 0 0 0, Point3f 1 0 0, Point3f 0 1 7]"
proof -
  have per_view: "parse_points sample_embind (JsArray [JsArray [js_xy 2 0], JsArray [js_xy 1 1]])
     (JsArray [JsArray [js_xyz 0 0 5], JsArray [js_xy 1 1]])
     = Returned ([[Point2f 2 0], [Point2f 1 1]], [[Point3f 0 0 5], [Point3f 1 1 0]])"
    by (simp add: sample_defs)
  have shared: "parse_points sample_embind (JsArray [JsArray [js_xy 2 0], JsArray [js_xy 1 1]])
     (JsArray [js_xy 0 0, js_xy 1 0, js_xyz 0 1 7])
     = Returned ([[Point2f 2 0], [Point2f 1 1]],
                 [[Point3f 0 0 0, Point3f 1 0 0, Point3f 0 1 7], [Point3f 0 0 0, Point3f 1 0 0, Point3f 0 1 7]])"
    by (simp add: sample_defs)
  have lens: "js_length sample_embind (JsArray [JsArray [js_xy 2 0], JsArray [js_xy 1 1]]) = 2"
    "js_length sample_embind (JsArray [JsArray [js_xyz 0 0 5], JsArray [js_xy 1 1]]) = 2"
    "js_length sample_embind (JsArray [js_xy 0 0, js_xy 1 0, js_xyz 0 1 7]) = 3"
    by (simp_all add: sample_embind_def js_length_def)
  have idx: "js_index sample_embind (JsArray [JsArray [js_xyz 0 0 5], JsArray [js_xy 1 1]]) 0 = JsArray [js_xyz 0 0 5]"
    "js_index sample_embind (JsArray [JsArray [js_xyz 0 0 5], JsArray [js_xy 1 1]]) (Suc 0) = JsArray [js_xy 1 1]"
    by (simp_all add: sample_embind_def)
  from object_points_reconciled [OF per_view]
  have "parse_object_list sample_embind (JsArray [js_xyz 0 0 5]) = Returned [Point3f 0 0 5]
      \<and> parse_object_list sample_embind (JsArray [js_xy 1 1]) = Returned [Point3f 1 1 0]"
    unfolding lens by (simp add: idx less_2_cases_iff all_conj_distrib)
  moreover from object_points_reconciled [OF shared]
  have "parse_object_list sample_embind (JsArray [js_xy 0 0, js_xy 1 0, js_xyz 0 1 7])
     = Returned [Point3f 0 0 0, Point3f 1 0 0, Point3f 0 1 7]"
    unfolding lens by (simp add: numeral_2_eq_2)
  ultimately show ?thesis
    using per_view shared by simp
qed

subsection \<open>Per-view errors\<close>

lemma view_error_Returned:
  "view_error ext objectPoints imagePoints cal i = Returned (err, perViewError) \<Longrightarrow>
   \<exists>imagePoints2.
     cv_projectPoints ext (objectPoints ! i) (rvecs cal ! i) (tvecs cal ! i)
       (cameraMatrix cal) (distCoeffs cal) = Inr imagePoints2 \<and>
     cv_norm ext (imagePoints ! i) imagePoints2 = Inr err \<and>
     perViewError = std_sqrt ext (err * err / size_to_double ext (length (imagePoints ! i)))"
  by (auto simp: view_error_def split: if_splits sum.splits)

lemma reprojection_loop_Returned:
  "reprojection_loop body idx (acc, tot) = Returned (perViewErrors, totalError) \<Longrightarrow>
   \<exists>new. perViewErrors = acc @ new \<and> length new = length idx \<and>
         (\<forall>k < length idx. \<exists>err. body (idx ! k) = Returned (err, new ! k))"
proof (induction idx arbitrary: acc tot)
  case Nil
  then show ?case by simp
next
  case (Cons i rest)
  from Cons.prems obtain err pve where here: "body i = Returned (err, pve)"
      and rest: "reprojection_loop body rest (acc @ [pve], tot + err * err)
                   = Returned (perViewErrors, totalError)"
    by (auto simp: and_then_Returned)
  from Cons.IH [OF rest] obtain new where new: "perViewErrors = (acc @ [pve]) @ new"
      "length new = length rest" "\<forall>k < length rest. \<exists>err. body (rest ! k) = Returned (err, new ! k)"
    by blast
  have "perViewErrors = acc @ (pve # new) \<and> length (pve # new) = length (i # rest) \<and>
        (\<forall>k < length (i # rest). \<exists>err. body ((i # rest) ! k) = Returned (err, (pve # new) ! k))"
    using new here by (auto simp: nth_Cons split: nat.splits)
  then show ?case by blast
qed

lemma reprojection_loop_upt:
  "reprojection_loop body [0..<n] ([], tot) = Returned (perViewErrors, totalError) \<Longrightarrow>
   length perViewErrors = n \<and> (\<forall>i < n. \<exists>err. body i = Returned (err, perViewErrors ! i))"
  using reprojection_loop_Returned [of body "[0..<n]" "[]" tot perViewErrors totalError]
  by auto

lemma collect_snd_upt:
  "collect (\<lambda>i. and_then (body i) (\<lambda>(err, perViewError). Returned perViewError)) [0..<n]
     = Returned perViewErrors \<Longrightarrow>
   length perViewErrors = n \<and> (\<forall>i < n. \<exists>err. body i = Returned (err, perViewErrors ! i))"
proof -
  assume "collect (\<lambda>i. and_then (body i) (\<lambda>(err, perViewError). Returned perViewError)) [0..<n]
     = Returned perViewErrors"
  from collect_upt_Returned [OF this]
  have len: "length perViewErrors = n"
    and each: "\<forall>i < n. and_then (body i) (\<lambda>(err, perViewError). Returned perViewError)
                 = Returned (perViewErrors ! i)"
    by simp_all
  from each have "\<forall>i < n. \<exists>err. body i = Returned (err, perViewErrors ! i)"
    by (auto simp: and_then_Returned)
  with len show ?thesis by simp
qed

lemma solve_and_print_report:
  "solve_and_print ext objectPoints imagePoints imageSize
     = Returned (code, CalibrationReport r K D rv tv perViewErrors) \<Longrightarrow>
   \<exists>cal. cv_calibrateCamera ext objectPoints imagePoints imageSize = Inr cal \<and> r = rms cal \<and>
     length perViewErrors = length objectPoints \<and>
     (\<forall>i < length objectPoints. \<exists>err.
        view_error ext objectPoints imagePoints cal i = Returned (err, perViewErrors ! i))"
  by (auto simp: solve_and_print_def split: sum.splits outcome.splits exn.splits
        dest!: reprojection_loop_upt)

lemma solve_and_return_report:
  "solve_and_return ext objectPoints imagePoints imageSize
     = Returned (CalibrationReport r K D rv tv perViewErrors) \<Longrightarrow>
   \<exists>cal. cv_calibrateCamera ext objectPoints imagePoints imageSize = Inr cal \<and> r = rms cal \<and>
     length perViewErrors = length objectPoints \<and>
     (\<forall>i < length objectPoints. \<exists>err.
        view_error ext objectPoints imagePoints cal i = Returned (err, perViewErrors ! i))"
  by (auto simp: solve_and_return_def and_then_Returned split: sum.splits
        dest!: collect_snd_upt)

lemma reported_values:
  assumes "solve_and_print ext objectPoints imagePoints imageSize
             = Returned (code, CalibrationReport r K D rv tv perViewErrors)
           \<or> solve_and_return ext objectPoints imagePoints imageSize
             = Returned (CalibrationReport r K D rv tv perViewErrors)"
  shows "\<exists>cal. cv_calibrateCamera ext objectPoints imagePoints imageSize = Inr cal \<and> r = rms cal \<and>
           length perViewErrors = length objectPoints \<and>
           (\<forall>i < length objectPoints. \<exists>imagePoints2 err.
              cv_projectPoints ext (objectPoints ! i) (rvecs cal ! i) (tvecs cal ! i)
                (cameraMatrix cal) (distCoeffs cal) = Inr imagePoints2 \<and>
              cv_norm ext (imagePoints ! i) imagePoints2 = Inr err \<and>
              perViewErrors ! i = std_sqrt ext (err * err / size_to_double ext (length (imagePoints ! i))))"
proof -
  from assms have "\<exists>cal. cv_calibrateCamera ext objectPoints imagePoints imageSize = Inr cal \<and> r = rms cal \<and>
     length perViewErrors = length objectPoints \<and>
     (\<forall>i < length objectPoints. \<exists>err.
        view_error ext objectPoints imagePoints cal i = Returned (err, perViewErrors ! i))"
  proof
    assume "solve_and_print ext objectPoints imagePoints imageSize
             = Returned (code, CalibrationReport r K D rv tv perViewErrors)"
    then show ?thesis by (rule solve_and_print_report)
  next
    assume "solve_and_return ext objectPoints imagePoints imageSize
             = Returned (CalibrationReport r K D rv tv perViewErrors)"
    then show ?thesis by (rule solve_and_return_report)
  qed
  then obtain cal where cal: "cv_calibrateCamera ext objectPoints imagePoints imageSize = Inr cal"
      "r = rms cal" "length perViewErrors = length objectPoints"
      and each: "\<forall>i < length objectPoints. \<exists>err.
        view_error ext objectPoints imagePoints cal i = Returned (err, perViewErrors ! i)"
    by blast
  have "\<forall>i < length objectPoints. \<exists>imagePoints2 err.
              cv_projectPoints ext (objectPoints ! i) (rvecs cal ! i) (tvecs cal ! i)
                (cameraMatrix cal) (distCoeffs cal) = Inr imagePoints2 \<and>
              cv_norm ext (imagePoints ! i) imagePoints2 = Inr err \<and>
              perViewErrors ! i = std_sqrt ext (err * err / size_to_double ext (length (imagePoints ! i)))"
  proof (intro allI impI)
    fix i assume "i < length objectPoints"
    with each obtain err where "view_error ext objectPoints imagePoints cal i = Returned (err, perViewErrors ! i)"
      by blast
    from view_error_Returned [OF this]
    show "\<exists>imagePoints2 err.
              cv_projectPoints ext (objectPoints ! i) (rvecs cal ! i) (tvecs cal ! i)
                (cameraMatrix cal) (distCoeffs cal) = Inr imagePoints2 \<and>
              cv_norm ext (imagePoints ! i) imagePoints2 = Inr err \<and>
              perViewErrors ! i = std_sqrt ext (err * err / size_to_double ext (length (imagePoints ! i)))"
      by blast
  qed
  with cal show ?thesis by blast
qed

lemma collect_all_Returned:
  "\<forall>i \<in> set idx. body i = Returned (f i) \<Longrightarrow> collect body idx = Returned (map f idx)"
  by (induction idx) simp_all

lemma collect_stops_Thrown:
  "k < length idx \<Longrightarrow> \<forall>i < k. \<exists>x. body (idx ! i) = Returned x \<Longrightarrow>
   body (idx ! k) = Thrown e \<Longrightarrow> collect body idx = Thrown e"
proof (induction idx arbitrary: k)
  case Nil
  then show ?case by simp
next
  case (Cons i rest)
  show ?case
  proof (cases k)
    case 0
    with Cons.prems(3) show ?thesis by simp
  next
    case (Suc k')
    from Cons.prems(2) Suc obtain x where here: "body i = Returned x"
      by fastforce
    from Cons.prems Suc have "k' < length rest" "\<forall>i < k'. \<exists>x. body (rest ! i) = Returned x"
        "body (rest ! k') = Thrown e"
      by auto
    from Cons.IH [OF this] here show ?thesis
      by simp
  qed
qed

lemma collect_stops_Undefined:
  "k < length idx \<Longrightarrow> \<forall>i < k. \<exists>x. body (idx ! i) = Returned x \<Longrightarrow>
   body (idx ! k) = Undefined \<Longrightarrow> collect body idx = Undefined"
proof (induction idx arbitrary: k)
  case Nil
  then show ?case by simp
next
  case (Cons i rest)
  show ?case
  proof (cases k)
    case 0
    with Cons.prems(3) show ?thesis by simp
  next
    case (Suc k')
    from Cons.prems(2) Suc obtain x where here: "body i = Returned x"
      by fastforce
    from Cons.prems Suc have "k' < length rest" "\<forall>i < k'. \<exists>x. body (rest ! i) = Returned x"
        "body (rest ! k') = Undefined"
      by auto
    from Cons.IH [OF this] here show ?thesis
      by simp
  qed
qed

lemma reprojection_loop_all_Returned:
  "\<forall>i \<in> set idx. body i = Returned (err i, pve i) \<Longrightarrow>
   \<exists>tot'. reprojection_loop body idx (acc, tot) = Returned (acc @ map pve idx, tot')"
proof (induction idx arbitrary: acc tot)
  case Nil
  show ?case by simp
next
  case (Cons i rest)
  then have here: "body i = Returned (err i, pve i)"
      and later: "\<forall>j \<in> set rest. body j = Returned (err j, pve j)"
    by simp_all
  from Cons.IH [OF later, of "acc @ [pve i]" "tot + err i * err i"] here show ?case
    by simp
qed

lemma view_error_runs:
  "i < length objectPoints \<Longrightarrow> i < length imagePoints \<Longrightarrow>
   i < length (rvecs cal) \<Longrightarrow> i < length (tvecs cal) \<Longrightarrow>
   cv_projectPoints ext (objectPoints ! i) (rvecs cal ! i) (tvecs cal ! i)
     (cameraMatrix cal) (distCoeffs cal) = Inr imagePoints2 \<Longrightarrow>
   cv_norm ext (imagePoints ! i) imagePoints2 = Inr err \<Longrightarrow>
   view_error ext objectPoints imagePoints cal i =
     Returned (err, std_sqrt ext (err * err / size_to_double ext (length (imagePoints ! i))))"
  by (simp add: view_error_def)

lemma solve_and_print_runs:
  "cv_calibrateCamera ext objectPoints imagePoints imageSize = Inr cal \<Longrightarrow>
   \<forall>i < length objectPoints. view_error ext objectPoints imagePoints cal i = Returned (err i, pve i) \<Longrightarrow>
   solve_and_print ext objectPoints imagePoints imageSize =
     Returned (0, CalibrationReport (rms cal) (cameraMatrix cal) (distCoeffs cal) (rvecs cal) (tvecs cal)
                    (map pve [0..<length objectPoints]))"
proof -
  assume solved: "cv_calibrateCamera ext objectPoints imagePoints imageSize = Inr cal"
    and each: "\<forall>i < length objectPoints. view_error ext objectPoints imagePoints cal i = Returned (err i, pve i)"
  from each have "\<forall>i \<in> set [0..<length objectPoints].
      view_error ext objectPoints imagePoints cal i = Returned (err i, pve i)"
    by simp
  from reprojection_loop_all_Returned [OF this, of "[]" 0] obtain tot' where
    "reprojection_loop (view_error ext objectPoints imagePoints cal) [0..<length objectPoints] ([], 0)
       = Returned (map pve [0..<length objectPoints], tot')"
    by auto
  with solved show ?thesis
    by (simp add: solve_and_print_def)
qed

lemma solve_and_return_runs:
  "cv_calibrateCamera ext objectPoints imagePoints imageSize = Inr cal \<Longrightarrow>
   \<forall>i < length objectPoints. view_error ext objectPoints imagePoints cal i = Returned (err i, pve i) \<Longrightarrow>
   solve_and_return ext objectPoints imagePoints imageSize =
     Returned (CalibrationReport (rms cal) (cameraMatrix cal) (distCoeffs cal) (rvecs cal) (tvecs cal)
                 (map pve [0..<length objectPoints]))"
proof -
  assume solved: "cv_calibrateCamera ext objectPoints imagePoints imageSize = Inr cal"
    and each: "\<forall>i < length objectPoints. view_error ext objectPoints imagePoints cal i = Returned (err i, pve i)"
  from each have "\<forall>i \<in> set [0..<length objectPoints].
      and_then (view_error ext objectPoints imagePoints cal i) (\<lambda>(err, perViewError). Returned perViewError)
        = Returned (pve i)"
    by simp
  from collect_all_Returned [OF this] solved show ?thesis
    by (simp add: solve_and_return_def)
qed

lemma solve_and_return_stops_Thrown:
  assumes "cv_calibrateCamera ext objectPoints imagePoints imageSize = Inr cal"
    and "k < length objectPoints"
    and "\<forall>i < k. \<exists>r. view_error ext objectPoints imagePoints cal i = Returned r"
    and "view_error ext objectPoints imagePoints cal k = Thrown e"
  shows "solve_and_return ext objectPoints imagePoints imageSize = Thrown e"
proof -
  let ?body = "\<lambda>i. and_then (view_error ext objectPoints imagePoints cal i)
                      (\<lambda>(err, perViewError). Returned perViewError)"
  have "k < length [0..<length objectPoints]"
    using assms(2) by simp
  moreover have "\<forall>i < k. \<exists>x. ?body ([0..<length objectPoints] ! i) = Returned x"
    using assms(2,3) by (auto simp: and_then_Returned split_beta)
  moreover have "?body ([0..<length objectPoints] ! k) = Thrown e"
    using assms(2,4) by simp
  ultimately have "collect ?body [0..<length objectPoints] = Thrown e"
    by (rule collect_stops_Thrown)
  with assms(1) show ?thesis
    by (simp add: solve_and_return_def)
qed

lemma solve_and_return_stops_Undefined:
  assumes "cv_calibrateCamera ext objectPoints imagePoints imageSize = Inr cal"
    and "k < length objectPoints"
    and "\<forall>i < k. \<exists>r. view_error ext objectPoints imagePoints cal i = Returned r"
    and "view_error ext objectPoints imagePoints cal k = Undefined"
  shows "solve_and_return ext objectPoints imagePoints imageSize = Undefined"
proof -
  let ?body = "\<lambda>i. and_then (view_error ext objectPoints imagePoints cal i)
                      (\<lambda>(err, perViewError). Returned perViewError)"
  have "k < length [0..<length objectPoints]"
    using assms(2) by simp
  moreover have "\<forall>i < k. \<exists>x. ?body ([0..<length objectPoints] ! i) = Returned x"
    using assms(2,3) by (auto simp: and_then_Returned split_beta)
  moreover have "?body ([0..<length objectPoints] ! k) = Undefined"
    using assms(2,4) by simp
  ultimately have "collect ?body [0..<length objectPoints] = Undefined"
    by (rule collect_stops_Undefined)
  with assms(1) show ?thesis
    by (simp add: solve_and_return_def)
qed

lemma calibrateCamera_parsed:
  "parse_points js allImagePointsJS objPointsJS = Returned (imagePoints, objectPoints) \<Longrightarrow>
   calibrateCamera ext js allImagePointsJS objPointsJS w h =
     solve_and_return ext objectPoints imagePoints (Size w h)"
  by (simp add: calibrateCamera_def)

text \<open>
  C6. In a result reported by either front end, the \<^verbatim>\<open>rms\<close> is the value the solver
  returned, there is one per-view error for each view, and the error of view \<open>i\<close> is
  \<^verbatim>\<open>std::sqrt(err*err/n)\<close>, where \<^verbatim>\<open>err\<close> is the norm between the view's detected points
  and the projection of its object points through the solved pose and intrinsics, and
  \<open>n\<close> is the number of the view's detected points. And both front ends do report:
  whenever the solver returns a pose for every view and the projection and the norm of
  every view return, each of them hands back the result with these very values. The
  arithmetic is that of \<^verbatim>\<open>double\<close>, whatever it is.
\<close>

theorem rms_and_per_view_errors_reported:
  "(solve_and_print ext objectPoints imagePoints imageSize
       = Returned (code, CalibrationReport r K D rv tv perViewErrors)
     \<or> solve_and_return ext objectPoints imagePoints imageSize
       = Returned (CalibrationReport r K D rv tv perViewErrors)
    \<longrightarrow> (\<exists>cal. cv_calibrateCamera ext objectPoints imagePoints imageSize = Inr cal \<and> r = rms cal \<and>
           length perViewErrors = length objectPoints \<and>
           (\<forall>i < length objectPoints. \<exists>imagePoints2 err.
              cv_projectPoints ext (objectPoints ! i) (rvecs cal ! i) (tvecs cal ! i)
                (cameraMatrix cal) (distCoeffs cal) = Inr imagePoints2 \<and>
              cv_norm ext (imagePoints ! i) imagePoints2 = Inr err \<and>
              perViewErrors ! i = std_sqrt ext (err * err / size_to_double ext (length (imagePoints ! i))))))
   \<and> (cv_calibrateCamera ext objectPoints imagePoints imageSize = Inr solved \<and>
       length objectPoints \<le> length imagePoints \<and>
       length objectPoints \<le> length (rvecs solved) \<and>
       length objectPoints \<le> length (tvecs solved) \<and>
       (\<forall>i < length objectPoints.
          cv_projectPoints ext (objectPoints ! i) (rvecs solved ! i) (tvecs solved ! i)
            (cameraMatrix solved) (distCoeffs solved) = Inr (projected i) \<and>
          cv_norm ext (imagePoints ! i) (projected i) = Inr (norms i))
    \<longrightarrow> solve_and_print ext objectPoints imagePoints imageSize
          = Returned (0, CalibrationReport (rms solved) (cameraMatrix solved) (distCoeffs solved)
              (rvecs solved) (tvecs solved)
              (map (\<lambda>i. std_sqrt ext (norms i * norms i / size_to_double ext (length (imagePoints ! i))))
                 [0..<length objectPoints]))
        \<and> solve_and_return ext objectPoints imagePoints imageSize
          = Returned (CalibrationReport (rms solved) (cameraMatrix solved) (distCoeffs solved)
              (rvecs solved) (tvecs solved)
              (map (\<lambda>i. std_sqrt ext (norms i * norms i / size_to_double ext (length (imagePoints ! i))))
                 [0..<length objectPoints])))"
proof (intro conjI impI)
  assume "solve_and_print ext objectPoints imagePoints imageSize
       = Returned (code, CalibrationReport r K D rv tv perViewErrors)
     \<or> solve_and_return ext objectPoints imagePoints imageSize
       = Returned (CalibrationReport r K D rv tv perViewErrors)"
  then show "\<exists>cal. cv_calibrateCamera ext objectPoints imagePoints imageSize = Inr cal \<and> r = rms cal \<and>
           length perViewErrors = length objectPoints \<and>
           (\<forall>i < length objectPoints. \<exists>imagePoints2 err.
              cv_projectPoints ext (objectPoints ! i) (rvecs cal ! i) (tvecs cal ! i)
                (cameraMatrix cal) (distCoeffs cal) = Inr imagePoints2 \<and>
              cv_norm ext (imagePoints ! i) imagePoints2 = Inr err \<and>
              perViewErrors ! i = std_sqrt ext (err * err / size_to_double ext (length (imagePoints ! i))))"
    by (rule reported_values)
next
  assume h: "cv_calibrateCamera ext objectPoints imagePoints imageSize = Inr solved \<and>
       length objectPoints \<le> length imagePoints \<and>
       length objectPoints \<le> length (rvecs solved) \<and>
       length objectPoints \<le> length (tvecs solved) \<and>
       (\<forall>i < length objectPoints.
          cv_projectPoints ext (objectPoints ! i) (rvecs solved ! i) (tvecs solved ! i)
            (cameraMatrix solved) (distCoeffs solved) = Inr (projected i) \<and>
          cv_norm ext (imagePoints ! i) (projected i) = Inr (norms i))"
  then have solved: "cv_calibrateCamera ext objectPoints imagePoints imageSize = Inr solved"
    by simp
  from h have each: "\<forall>i < length objectPoints.
      view_error ext objectPoints imagePoints solved i =
        Returned (norms i, std_sqrt ext (norms i * norms i / size_to_double ext (length (imagePoints ! i))))"
    by (simp add: view_error_runs)
  from solved each
  show "solve_and_print ext objectPoints imagePoints imageSize
          = Returned (0, CalibrationReport (rms solved) (cameraMatrix solved) (distCoeffs solved)
              (rvecs solved) (tvecs solved)
              (map (\<lambda>i. std_sqrt ext (norms i * norms i / size_to_double ext (length (imagePoints ! i))))
                 [0..<length objectPoints]))"
    by (rule solve_and_print_runs)
  from solved each
  show "solve_and_return ext objectPoints imagePoints imageSize
          = Returned (CalibrationReport (rms solved) (cameraMatrix solved) (distCoeffs solved)
              (rvecs solved) (tvecs solved)
              (map (\<lambda>i. std_sqrt ext (norms i * norms i / size_to_double ext (length (imagePoints ! i))))
                 [0..<length objectPoints]))"
    by (rule solve_and_return_runs)
qed

theorem rms_and_per_view_errors_reported_witness:
  "cv_calibrateCamera sample_extern sample_objectPoints sample_imagePoints (Size 640 480)
     = Inr (sample_solution 2)
   \<and> cv_projectPoints sample_extern (sample_objectPoints ! 0) 3 4 1 2 = Inr [Point2f 0 0]
   \<and> cv_norm sample_extern (sample_imagePoints ! 0) [Point2f 0 0] = Inr 2
   \<and> cv_projectPoints sample_extern (sample_objectPoints ! 1) 3 4 1 2 = Inr [Point2f 0 0]
   \<and> cv_norm sample_extern (sample_imagePoints ! 1) [Point2f 0 0] = Inr (sqrt 2)
   \<and> solve_and_print sample_extern sample_objectPoints sample_imagePoints (Size 640 480)
     = Returned (0, CalibrationReport (1 / 2) 1 2 [3, 3] [4, 4] [2, sqrt 2])
   \<and> solve_and_return sample_extern sample_objectPoints sample_imagePoints (Size 640 480)
     = Returned (CalibrationReport (1 / 2) 1 2 [3, 3] [4, 4] [2, sqrt 2])
   \<and> (\<exists>cal. cv_calibrateCamera sample_extern sample_objectPoints sample_imagePoints (Size 640 480)
               = Inr cal \<and> 1 / 2 = rms cal \<and>
           length [2, sqrt 2] = length sample_objectPoints \<and>
           (\<exists>imagePoints2 err.
              cv_projectPoints sample_extern (sample_objectPoints ! 0) (rvecs cal ! 0) (tvecs cal ! 0)
                (cameraMatrix cal) (distCoeffs cal) = Inr imagePoints2 \<and>
              cv_norm sample_extern (sample_imagePoints ! 0) imagePoints2 = Inr err \<and>
              [2, sqrt 2] ! 0 = std_sqrt sample_extern
                 (err * err / size_to_double sample_extern (length (sample_imagePoints ! 0)))) \<and>
           (\<exists>imagePoints2 err.
              cv_projectPoints sample_extern (sample_objectPoints ! 1) (rvecs cal ! 1) (tvecs cal ! 1)
                (cameraMatrix cal) (distCoeffs cal) = Inr imagePoints2 \<and>
              cv_norm sample_extern (sample_imagePoints ! 1) imagePoints2 = Inr err \<and>
              [2, sqrt 2] ! 1 = std_sqrt sample_extern
                 (err * err / size_to_double sample_extern (length (sample_imagePoints ! 1)))))"
proof -
  let ?proj = "\<lambda>i::nat. [Point2f 0 (0::int)]" and ?norms = "\<lambda>i::nat. if i = 0 then 2 else sqrt 2"
  note points = sample_objectPoints_def sample_imagePoints_def
  have solved: "cv_calibrateCamera sample_extern sample_objectPoints sample_imagePoints (Size 640 480)
     = Inr (sample_solution 2)"
    by (simp add: points sample_defs)
  have p0: "cv_projectPoints sample_extern (sample_objectPoints ! 0) 3 4 1 2 = Inr [Point2f 0 0]"
    and n0: "cv_norm sample_extern (sample_imagePoints ! 0) [Point2f 0 0] = Inr 2"
    and p1: "cv_projectPoints sample_extern (sample_objectPoints ! 1) 3 4 1 2 = Inr [Point2f 0 0]"
    and n1: "cv_norm sample_extern (sample_imagePoints ! 1) [Point2f 0 0] = Inr (sqrt 2)"
    by (simp_all add: points sample_defs)
  have lens: "length sample_objectPoints = 2" "length sample_imagePoints = 2"
    by (simp_all add: points)
  have views: "(0::nat) < length sample_objectPoints" "(1::nat) < length sample_objectPoints"
    by (simp_all add: points)
  have each: "\<forall>i < length sample_objectPoints.
          cv_projectPoints sample_extern (sample_objectPoints ! i) (rvecs (sample_solution 2) ! i)
            (tvecs (sample_solution 2) ! i) (cameraMatrix (sample_solution 2)) (distCoeffs (sample_solution 2))
            = Inr (?proj i) \<and>
          cv_norm sample_extern (sample_imagePoints ! i) (?proj i) = Inr (?norms i)"
  proof (intro allI impI)
    fix i
    assume "i < length sample_objectPoints"
    then have "i = 0 \<or> i = 1"
      by (auto simp: lens)
    then show "cv_projectPoints sample_extern (sample_objectPoints ! i) (rvecs (sample_solution 2) ! i)
            (tvecs (sample_solution 2) ! i) (cameraMatrix (sample_solution 2)) (distCoeffs (sample_solution 2))
            = Inr (?proj i) \<and>
          cv_norm sample_extern (sample_imagePoints ! i) (?proj i) = Inr (?norms i)"
      using p0 n0 p1 n1 by (auto simp: sample_solution_def)
  qed
  have given: "cv_calibrateCamera sample_extern sample_objectPoints sample_imagePoints (Size 640 480)
       = Inr (sample_solution 2) \<and>
       length sample_objectPoints \<le> length sample_imagePoints \<and>
       length sample_objectPoints \<le> length (rvecs (sample_solution 2)) \<and>
       length sample_objectPoints \<le> length (tvecs (sample_solution 2)) \<and>
       (\<forall>i < length sample_objectPoints.
          cv_projectPoints sample_extern (sample_objectPoints ! i) (rvecs (sample_solution 2) ! i)
            (tvecs (sample_solution 2) ! i) (cameraMatrix (sample_solution 2)) (distCoeffs (sample_solution 2))
            = Inr (?proj i) \<and>
          cv_norm sample_extern (sample_imagePoints ! i) (?proj i) = Inr (?norms i))"
    using solved each by (simp add: lens sample_solution_def)
  note inst = rms_and_per_view_errors_reported
      [of sample_extern sample_objectPoints sample_imagePoints "Size 640 480" 0 "1 / 2" 1 2
          "[3, 3]" "[4, 4]" "[2, sqrt 2]" "sample_solution 2" ?proj ?norms]
  from inst given
  have runs: "solve_and_print sample_extern sample_objectPoints sample_imagePoints (Size 640 480)
          = Returned (0, CalibrationReport (rms (sample_solution 2)) (cameraMatrix (sample_solution 2))
              (distCoeffs (sample_solution 2)) (rvecs (sample_solution 2)) (tvecs (sample_solution 2))
              (map (\<lambda>i. std_sqrt sample_extern (?norms i * ?norms i /
                       size_to_double sample_extern (length (sample_imagePoints ! i))))
                 [0..<length sample_objectPoints]))
        \<and> solve_and_return sample_extern sample_objectPoints sample_imagePoints (Size 640 480)
          = Returned (CalibrationReport (rms (sample_solution 2)) (cameraMatrix (sample_solution 2))
              (distCoeffs (sample_solution 2)) (rvecs (sample_solution 2)) (tvecs (sample_solution 2))
              (map (\<lambda>i. std_sqrt sample_extern (?norms i * ?norms i /
                       size_to_double sample_extern (length (sample_imagePoints ! i))))
                 [0..<length sample_objectPoints]))"
    by blast
  have listed: "map (\<lambda>i. std_sqrt sample_extern (?norms i * ?norms i /
                       size_to_double sample_extern (length (sample_imagePoints ! i))))
                 [0..<length sample_objectPoints] = [2, sqrt 2]"
    by (simp add: points sample_extern_def upt_rec numeral_2_eq_2)
  from runs have printed: "solve_and_print sample_extern sample_objectPoints sample_imagePoints (Size 640 480)
     = Returned (0, CalibrationReport (1 / 2) 1 2 [3, 3] [4, 4] [2, sqrt 2])"
    and returned: "solve_and_return sample_extern sample_objectPoints sample_imagePoints (Size 640 480)
     = Returned (CalibrationReport (1 / 2) 1 2 [3, 3] [4, 4] [2, sqrt 2])"
    unfolding listed by (simp_all add: sample_solution_def numeral_2_eq_2)
  from inst returned obtain cal where
      cal: "cv_calibrateCamera sample_extern sample_objectPoints sample_imagePoints (Size 640 480) = Inr cal"
        "1 / 2 = rms cal" "length [2, sqrt 2] = length sample_objectPoints"
      and all: "\<forall>i < length sample_objectPoints. \<exists>imagePoints2 err.
              cv_projectPoints sample_extern (sample_objectPoints ! i) (rvecs cal ! i) (tvecs cal ! i)
                (cameraMatrix cal) (distCoeffs cal) = Inr imagePoints2 \<and>
              cv_norm sample_extern (sample_imagePoints ! i) imagePoints2 = Inr err \<and>
              [2, sqrt 2] ! i = std_sqrt sample_extern
                 (err * err / size_to_double sample_extern (length (sample_imagePoints ! i)))"
    by blast
  from all views(1) have first: "\<exists>imagePoints2 err.
              cv_projectPoints sample_extern (sample_objectPoints ! 0) (rvecs cal ! 0) (tvecs cal ! 0)
                (cameraMatrix cal) (distCoeffs cal) = Inr imagePoints2 \<and>
              cv_norm sample_extern (sample_imagePoints ! 0) imagePoints2 = Inr err \<and>
              [2, sqrt 2] ! 0 = std_sqrt sample_extern
                 (err * err / size_to_double sample_extern (length (sample_imagePoints ! 0)))"
    by blast
  from all views(2) have second: "\<exists>imagePoints2 err.
              cv_projectPoints sample_extern (sample_objectPoints ! 1) (rvecs cal ! 1) (tvecs cal ! 1)
                (cameraMatrix cal) (distCoeffs cal) = Inr imagePoints2 \<and>
              cv_norm sample_extern (sample_imagePoints ! 1) imagePoints2 = Inr err \<and>
              [2, sqrt 2] ! 1 = std_sqrt sample_extern
                 (err * err / size_to_double sample_extern (length (sample_imagePoints ! 1)))"
    by blast
  from cal first second have "\<exists>cal. cv_calibrateCamera sample_extern sample_objectPoints sample_imagePoints (Size 640 480)
               = Inr cal \<and> 1 / 2 = rms cal \<and>
           length [2, sqrt 2] = length sample_objectPoints \<and>
           (\<exists>imagePoints2 err.
              cv_projectPoints sample_extern (sample_objectPoints ! 0) (rvecs cal ! 0) (tvecs cal ! 0)
                (cameraMatrix cal) (distCoeffs cal) = Inr imagePoints2 \<and>
              cv_norm sample_extern (sample_imagePoints ! 0) imagePoints2 = Inr err \<and>
              [2, sqrt 2] ! 0 = std_sqrt sample_extern
                 (err * err / size_to_double sample_extern (length (sample_imagePoints ! 0)))) \<and>
           (\<exists>imagePoints2 err.
              cv_projectPoints sample_extern (sample_objectPoints ! 1) (rvecs cal ! 1) (tvecs cal ! 1)
                (cameraMatrix cal) (distCoeffs cal) = Inr imagePoints2 \<and>
              cv_norm sample_extern (sample_imagePoints ! 1) imagePoints2 = Inr err \<and>
              [2, sqrt 2] ! 1 = std_sqrt sample_extern
                 (err * err / size_to_double sample_extern (length (sample_imagePoints ! 1))))"
    by (intro exI [of _ cal] conjI)
  with solved p0 n0 p1 n1 printed returned show ?thesis
    by (intro conjI)
qed

subsection \<open>Errors\<close>

text \<open>
  C1, as far as the program goes. The embedded front end compares no counts. It returns
  an error object exactly when it has read the two collections and the solver throws on
  them, and the object carries the solver's text, with no \<^verbatim>\<open>success\<close> key. When the
  solver returns, whatever the counts, the views are re-projected in order: if every
  view's re-projection returns, the result is reported with the solver's values and the
  views' errors, and the first view whose re-projection throws or reads out of range
  decides the outcome.
\<close>

theorem calibration_without_count_check:
  "(calibrateCamera ext js allImagePointsJS objPointsJS w h = Returned (ErrorReport flag text) \<longleftrightarrow>
      flag = None \<and>
      (\<exists>imagePoints objectPoints.
         parse_points js allImagePointsJS objPointsJS = Returned (imagePoints, objectPoints) \<and>
         cv_calibrateCamera ext objectPoints imagePoints (Size w h) = Inl text))
   \<and> (parse_points js allImagePointsJS objPointsJS = Returned (imagePoints, objectPoints) \<and>
       cv_calibrateCamera ext objectPoints imagePoints (Size w h) = Inr cal \<longrightarrow>
         ((\<forall>i < length objectPoints.
              view_error ext objectPoints imagePoints cal i = Returned (err i, perViewError i)) \<longrightarrow>
            calibrateCamera ext js allImagePointsJS objPointsJS w h =
              Returned (CalibrationReport (rms cal) (cameraMatrix cal) (distCoeffs cal)
                          (rvecs cal) (tvecs cal) (map perViewError [0..<length objectPoints])))
         \<and> (\<forall>k e. k < length objectPoints \<and>
                  (\<forall>i < k. \<exists>r. view_error ext objectPoints imagePoints cal i = Returned r) \<and>
                  view_error ext objectPoints imagePoints cal k = Thrown e \<longrightarrow>
                calibrateCamera ext js allImagePointsJS objPointsJS w h = Thrown e)
         \<and> (\<forall>k. k < length objectPoints \<and>
                  (\<forall>i < k. \<exists>r. view_error ext objectPoints imagePoints cal i = Returned r) \<and>
                  view_error ext objectPoints imagePoints cal k = Undefined \<longrightarrow>
                calibrateCamera ext js allImagePointsJS objPointsJS w h = Undefined))"
proof (intro conjI impI allI)
  show "calibrateCamera ext js allImagePointsJS objPointsJS w h = Returned (ErrorReport flag text) \<longleftrightarrow>
      flag = None \<and>
      (\<exists>imagePoints objectPoints.
         parse_points js allImagePointsJS objPointsJS = Returned (imagePoints, objectPoints) \<and>
         cv_calibrateCamera ext objectPoints imagePoints (Size w h) = Inl text)"
  proof (cases "parse_points js allImagePointsJS objPointsJS")
    case (Returned parsed)
    obtain ip op where parsed: "parsed = (ip, op)"
      by (cases parsed)
    show ?thesis
    proof (cases "cv_calibrateCamera ext op ip (Size w h)")
      case (Inl what)
      with Returned parsed show ?thesis
        by (auto simp: calibrateCamera_def solve_and_return_def)
    next
      case (Inr solved)
      with Returned parsed show ?thesis
        by (auto simp: calibrateCamera_def solve_and_return_def and_then_Returned)
    qed
  next
    case (Thrown e)
    then show ?thesis by (simp add: calibrateCamera_def)
  next
    case Undefined
    then show ?thesis by (simp add: calibrateCamera_def)
  qed
next
  assume "parse_points js allImagePointsJS objPointsJS = Returned (imagePoints, objectPoints) \<and>
       cv_calibrateCamera ext objectPoints imagePoints (Size w h) = Inr cal"
    and "\<forall>i < length objectPoints.
              view_error ext objectPoints imagePoints cal i = Returned (err i, perViewError i)"
  then have parsed: "parse_points js allImagePointsJS objPointsJS = Returned (imagePoints, objectPoints)"
    and solved: "cv_calibrateCamera ext objectPoints imagePoints (Size w h) = Inr cal"
    and each: "\<forall>i < length objectPoints.
              view_error ext objectPoints imagePoints cal i = Returned (err i, perViewError i)"
    by simp_all
  show "calibrateCamera ext js allImagePointsJS objPointsJS w h =
              Returned (CalibrationReport (rms cal) (cameraMatrix cal) (distCoeffs cal)
                          (rvecs cal) (tvecs cal) (map perViewError [0..<length objectPoints]))"
    unfolding calibrateCamera_parsed [OF parsed] using solved each by (rule solve_and_return_runs)
next
  fix k e
  assume "parse_points js allImagePointsJS objPointsJS = Returned (imagePoints, objectPoints) \<and>
       cv_calibrateCamera ext objectPoints imagePoints (Size w h) = Inr cal"
    and "k < length objectPoints \<and>
                  (\<forall>i < k. \<exists>r. view_error ext objectPoints imagePoints cal i = Returned r) \<and>
                  view_error ext objectPoints imagePoints cal k = Thrown e"
  then have parsed: "parse_points js allImagePointsJS objPointsJS = Returned (imagePoints, objectPoints)"
    and rest: "cv_calibrateCamera ext objectPoints imagePoints (Size w h) = Inr cal"
      "k < length objectPoints"
      "\<forall>i < k. \<exists>r. view_error ext objectPoints imagePoints cal i = Returned r"
      "view_error ext objectPoints imagePoints cal k = Thrown e"
    by simp_all
  show "calibrateCamera ext js allImagePointsJS objPointsJS w h = Thrown e"
    unfolding calibrateCamera_parsed [OF parsed] using rest by (rule solve_and_return_stops_Thrown)
next
  fix k
  assume "parse_points js allImagePointsJS objPointsJS = Returned (imagePoints, objectPoints) \<and>
       cv_calibrateCamera ext objectPoints imagePoints (Size w h) = Inr cal"
    and "k < length objectPoints \<and>
                  (\<forall>i < k. \<exists>r. view_error ext objectPoints imagePoints cal i = Returned r) \<and>
                  view_error ext objectPoints imagePoints cal k = Undefined"
  then have parsed: "parse_points js allImagePointsJS objPointsJS = Returned (imagePoints, objectPoints)"
    and rest: "cv_calibrateCamera ext objectPoints imagePoints (Size w h) = Inr cal"
      "k < length objectPoints"
      "\<forall>i < k. \<exists>r. view_error ext objectPoints imagePoints cal i = Returned r"
      "view_error ext objectPoints imagePoints cal k = Undefined"
    by simp_all
  show "calibrateCamera ext js allImagePointsJS objPointsJS w h = Undefined"
    unfolding calibrateCamera_parsed [OF parsed] using rest by (rule solve_and_return_stops_Undefined)
qed

theorem calibration_without_count_check_witness:
  "calibrateCamera sample_extern sample_embind (JsArray [JsArray [js_xy 2 0, js_xy 3 0]])
     (JsArray [JsArray [js_xyz 0 0 0]]) 640 480 = Returned (ErrorReport None ''bad point sets'')
   \<and> parse_points sample_embind (JsArray [JsArray [js_xy 2 0, js_xy 3 0]]) (JsArray [JsArray [js_xyz 0 0 0]])
       = Returned ([[Point2f 2 0, Point2f 3 0]], [[Point3f 0 0 0]])
   \<and> cv_calibrateCamera sample_extern [[Point3f 0 0 0]] [[Point2f 2 0, Point2f 3 0]] (Size 640 480)
       = Inl ''bad point sets''
   \<and> cv_calibrateCamera lenient_extern [[Point3f 0 0 0]] [[Point2f 2 0, Point2f 3 0]] (Size 640 480)
       = Inr (sample_solution 1)
   \<and> view_error lenient_extern [[Point3f 0 0 0]] [[Point2f 2 0, Point2f 3 0]] (sample_solution 1) 0
       = Returned (2, sqrt 2)
   \<and> calibrateCamera lenient_extern sample_embind (JsArray [JsArray [js_xy 2 0, js_xy 3 0]])
       (JsArray [JsArray [js_xyz 0 0 0]]) 640 480
       = Returned (CalibrationReport (1 / 2) 1 2 [3] [4] [sqrt 2])
   \<and> parse_points sample_embind (JsArray [JsArray [js_xy 2 0], JsArray [js_xy 1 1]]) (JsArray [js_xy 0 0])
       = Returned (sample_imagePoints, sample_objectPoints)
   \<and> view_error failing_projection_extern sample_objectPoints sample_imagePoints (sample_solution 2) 0
       = Thrown (CvException ''projection failed'')
   \<and> calibrateCamera failing_projection_extern sample_embind
         (JsArray [JsArray [js_xy 2 0], JsArray [js_xy 1 1]]) (JsArray [js_xy 0 0]) 640 480
       = Thrown (CvException ''projection failed'')
   \<and> view_error (sample_extern\<lparr> cv_calibrateCamera := (\<lambda>objectPoints imagePoints imageSize. Inr (sample_solution 0)) \<rparr>)
         sample_objectPoints sample_imagePoints (sample_solution 0) 0
       = Undefined
   \<and> calibrateCamera (sample_extern\<lparr> cv_calibrateCamera := (\<lambda>objectPoints imagePoints imageSize. Inr (sample_solution 0)) \<rparr>)
         sample_embind (JsArray [JsArray [js_xy 2 0], JsArray [js_xy 1 1]]) (JsArray [js_xy 0 0]) 640 480
       = Undefined"
proof -
  let ?img = "JsArray [JsArray [js_xy 2 0, js_xy 3 0]]" and ?obj = "JsArray [JsArray [js_xyz 0 0 0]]"
  let ?img2 = "JsArray [JsArray [js_xy 2 0], JsArray [js_xy 1 1]]" and ?obj2 = "JsArray [js_xy 0 0]"
  let ?short = "sample_extern\<lparr> cv_calibrateCamera :=
                  (\<lambda>objectPoints imagePoints imageSize. Inr (sample_solution 0)) \<rparr>"
  have parsed: "parse_points sample_embind ?img ?obj
       = Returned ([[Point2f 2 0, Point2f 3 0]], [[Point3f 0 0 0]])"
    by (simp add: sample_defs)
  have parsed2: "parse_points sample_embind ?img2 ?obj2 = Returned (sample_imagePoints, sample_objectPoints)"
    by (simp add: sample_objectPoints_def sample_imagePoints_def sample_defs)
  have thrown: "cv_calibrateCamera sample_extern [[Point3f 0 0 0]] [[Point2f 2 0, Point2f 3 0]] (Size 640 480)
       = Inl ''bad point sets''"
    by (simp add: sample_defs)
  have accepted: "cv_calibrateCamera lenient_extern [[Point3f 0 0 0]] [[Point2f 2 0, Point2f 3 0]] (Size 640 480)
       = Inr (sample_solution 1)"
    by (simp add: lenient_extern_def sample_defs)
  have view: "view_error lenient_extern [[Point3f 0 0 0]] [[Point2f 2 0, Point2f 3 0]] (sample_solution 1) 0
       = Returned (2, sqrt 2)"
    by (simp add: lenient_extern_def lenient_norm_def sample_defs)
  have solved2: "cv_calibrateCamera failing_projection_extern sample_objectPoints sample_imagePoints (Size 640 480)
       = Inr (sample_solution 2)"
    by (simp add: failing_projection_extern_def sample_objectPoints_def sample_imagePoints_def sample_defs)
  have view2: "view_error failing_projection_extern sample_objectPoints sample_imagePoints (sample_solution 2) 0
       = Thrown (CvException ''projection failed'')"
    by (simp add: failing_projection_extern_def sample_objectPoints_def sample_imagePoints_def sample_defs)
  have solved3: "cv_calibrateCamera ?short sample_objectPoints sample_imagePoints (Size 640 480)
       = Inr (sample_solution 0)"
    by simp
  have view3: "view_error ?short sample_objectPoints sample_imagePoints (sample_solution 0) 0 = Undefined"
    by (simp add: sample_objectPoints_def sample_imagePoints_def sample_defs)
  have views: "(0::nat) < length sample_objectPoints"
    by (simp add: sample_objectPoints_def)
  from parsed thrown
  have error: "calibrateCamera sample_extern sample_embind ?img ?obj 640 480
       = Returned (ErrorReport None ''bad point sets'')"
    using calibration_without_count_check
      [of sample_extern sample_embind ?img ?obj 640 480 None "''bad point sets''"]
    by blast
  have "\<forall>i < length [[Point3f 0 0 (0::int)]].
          view_error lenient_extern [[Point3f 0 0 0]] [[Point2f 2 0, Point2f 3 0]] (sample_solution 1) i
            = Returned ((\<lambda>i. 2) i, (\<lambda>i. sqrt 2) i)"
    using view by simp
  with parsed accepted
  have "calibrateCamera lenient_extern sample_embind ?img ?obj 640 480
       = Returned (CalibrationReport (rms (sample_solution 1)) (cameraMatrix (sample_solution 1))
           (distCoeffs (sample_solution 1)) (rvecs (sample_solution 1)) (tvecs (sample_solution 1))
           (map (\<lambda>i. sqrt 2) [0..<length [[Point3f 0 0 (0::int)]]]))"
    using calibration_without_count_check
      [of lenient_extern sample_embind ?img ?obj 640 480 None "[]"
          "[[Point2f 2 0, Point2f 3 0]]" "[[Point3f 0 0 0]]" "sample_solution 1" "\<lambda>i. 2" "\<lambda>i. sqrt 2"]
    by blast
  then have proceeds: "calibrateCamera lenient_extern sample_embind ?img ?obj 640 480
       = Returned (CalibrationReport (1 / 2) 1 2 [3] [4] [sqrt 2])"
    by (simp add: sample_solution_def)
  from parsed2 solved2 views view2
  have escapes: "calibrateCamera failing_projection_extern sample_embind ?img2 ?obj2 640 480
       = Thrown (CvException ''projection failed'')"
    using calibration_without_count_check
      [of failing_projection_extern sample_embind ?img2 ?obj2 640 480 None "[]"
          sample_imagePoints sample_objectPoints "sample_solution 2" "\<lambda>i. 0" "\<lambda>i. 0"]
    by (metis not_less_zero)
  from parsed2 solved3 views view3
  have undefined: "calibrateCamera ?short sample_embind ?img2 ?obj2 640 480 = Undefined"
    using calibration_without_count_check
      [of ?short sample_embind ?img2 ?obj2 640 480 None "[]"
          sample_imagePoints sample_objectPoints "sample_solution 0" "\<lambda>i. 0" "\<lambda>i. 0"]
    by (metis not_less_zero)
  from error parsed thrown accepted view proceeds parsed2 view2 escapes view3 undefined
  show ?thesis by (intro conjI)
qed

text \<open>
  C1 as stated asks for an error of its own kind exactly when some view has different
  numbers of object and image points. Here the only view has one object point and two
  image points. With a solver that accepts them, the result is reported. With one that
  throws, the error is the solver's, the same as for an input without any view.
\<close>

theorem count_mismatch_counterexample:
  "parse_points sample_embind (JsArray [JsArray [js_xy 2 0, js_xy 3 0]]) (JsArray [JsArray [js_xyz 0 0 0]])
       = Returned ([[Point2f 2 0, Point2f 3 0]], [[Point3f 0 0 0]])
   \<and> calibrateCamera lenient_extern sample_embind (JsArray [JsArray [js_xy 2 0, js_xy 3 0]])
       (JsArray [JsArray [js_xyz 0 0 0]]) 640 480
       = Returned (CalibrationReport (1 / 2) 1 2 [3] [4] [sqrt 2])
   \<and> calibrateCamera sample_extern sample_embind (JsArray [JsArray [js_xy 2 0, js_xy 3 0]])
       (JsArray [JsArray [js_xyz 0 0 0]]) 640 480
       = Returned (ErrorReport None ''bad point sets'')
   \<and> calibrateCamera sample_extern sample_embind (JsArray []) (JsArray []) 640 480
       = Returned (ErrorReport None ''bad point sets'')"
  by (simp add: calibrateCamera_def solve_and_return_def lenient_extern_def lenient_norm_def sample_defs)

text \<open>
  C5. The command-line front end catches a \<^verbatim>\<open>cv::Exception\<close> of the re-projection
  and prints an error of its own kind. The embedded front end has no \<^verbatim>\<open>try\<close> around
  its re-projection loop: on the same points, with a projection that throws, the
  exception leaves \<^verbatim>\<open>calibrateCamera\<close>.
\<close>

theorem embedded_reprojection_failure_escapes:
  "parse_points sample_embind (JsArray [JsArray [js_xy 2 0], JsArray [js_xy 1 1]]) (JsArray [js_xy 0 0])
     = Returned (sample_imagePoints, sample_objectPoints)
   \<and> calibrateCamera failing_projection_extern sample_embind
       (JsArray [JsArray [js_xy 2 0], JsArray [js_xy 1 1]]) (JsArray [js_xy 0 0]) 640 480
     = Thrown (CvException ''projection failed'')
   \<and> solve_and_print failing_projection_extern sample_objectPoints sample_imagePoints (Size 640 480)
     = Returned (0, ErrorReport (Some False) ''OpenCV Reprojection Error: projection failed'')"
  by (simp add: calibrateCamera_def solve_and_return_def solve_and_print_def
        failing_projection_extern_def sample_objectPoints_def sample_imagePoints_def sample_defs)

lemma solve_and_print_catches:
  "solve_and_print ext objectPoints imagePoints imageSize \<noteq> Thrown (CvException what)"
  by (simp add: solve_and_print_def split: sum.splits outcome.splits exn.splits prod.splits)

lemma solve_and_print_reprojection_failure:
  "cv_calibrateCamera ext objectPoints imagePoints imageSize = Inr cal \<Longrightarrow>
   reprojection_loop (view_error ext objectPoints imagePoints cal) [0..<length objectPoints] ([], 0)
     = Thrown (CvException what) \<Longrightarrow>
   solve_and_print ext objectPoints imagePoints imageSize
     = Returned (0, ErrorReport (Some False) (''OpenCV Reprojection Error: '' @ what))"
  by (simp add: solve_and_print_def)

end
